theory Spec2Isabelle
  imports Complex_Main
begin

section \<open>Conversation memory\<close>

text \<open>
  \<^verbatim>\<open>AIService.ts\<close> keeps \<^verbatim>\<open>conversationHistory: Map<string, ConversationMessage[]>\<close>.
  A message is \<^verbatim>\<open>{role, content, timestamp}\<close>; the timestamp \<^verbatim>\<open>new Date()\<close> is read from
  the clock, so the model takes it as an argument of each update.
\<close>

datatype role = User | Assistant

record conversationMessage =
  role :: role
  content :: string
  timestamp :: nat

type_synonym conversationStore = "string \<rightharpoonup> conversationMessage list"

definition getConversationHistory :: "conversationStore \<Rightarrow> string \<Rightarrow> conversationMessage list" where
  \<comment> \<open>\<^verbatim>\<open>this.conversationHistory.get(userId) || []\<close>\<close>
  "getConversationHistory st userId = (case st userId of None \<Rightarrow> [] | Some h \<Rightarrow> h)"

definition spliceFront :: "nat \<Rightarrow> 'a list \<Rightarrow> 'a list" where
  \<comment> \<open>\<^verbatim>\<open>if (history.length > n) history.splice(0, history.length - n)\<close>\<close>
  "spliceFront n h = (if length h > n then drop (length h - n) h else h)"

definition updateConversationHistory ::
  "conversationStore \<Rightarrow> string \<Rightarrow> string \<Rightarrow> string \<Rightarrow> nat \<Rightarrow> conversationStore" where
  \<comment> \<open>lines 1018-1047: push the user message, push the reply when it is a non-empty
      string, keep the last 20\<close>
  "updateConversationHistory st userId userMessage aiResponse now =
     (let history = getConversationHistory st userId;
          h1 = history @ [\<lparr>role = User, content = userMessage, timestamp = now\<rparr>];
          h2 = (if aiResponse \<noteq> [] then
                  h1 @ [\<lparr>role = Assistant, content = aiResponse, timestamp = now\<rparr>]
                else h1)
      in st(userId \<mapsto> spliceFront 20 h2))"

definition updateConversationHistoryResponse ::
  "conversationStore \<Rightarrow> string \<Rightarrow> string \<Rightarrow> nat \<Rightarrow> conversationStore" where
  \<comment> \<open>lines 1052-1070: push the reply (also an empty one), keep the last 20\<close>
  "updateConversationHistoryResponse st userId aiResponse now =
     (let history = getConversationHistory st userId;
          h1 = history @ [\<lparr>role = Assistant, content = aiResponse, timestamp = now\<rparr>]
      in st(userId \<mapsto> spliceFront 20 h1))"

definition updateConversationHistoryLegacy ::
  "conversationStore \<Rightarrow> string \<Rightarrow> string \<Rightarrow> string \<Rightarrow> nat \<Rightarrow> conversationStore" where
  \<comment> \<open>lines 2308-2331, the second \<^verbatim>\<open>AIService\<close> class: push both messages, keep the last 10\<close>
  "updateConversationHistoryLegacy st userId userMessage aiResponse now =
     (let history = getConversationHistory st userId;
          h1 = history @ [\<lparr>role = User, content = userMessage, timestamp = now\<rparr>,
                          \<lparr>role = Assistant, content = aiResponse, timestamp = now\<rparr>]
      in st(userId \<mapsto> spliceFront 10 h1))"

text \<open>
  A sequence of updates, each with the user id it is for and the clock value it reads.
  \<open>pushed\<close> lists, in order, the messages that an update pushes; \<open>runUpdates\<close> applies the
  updates to a store from left to right.
\<close>

datatype historyUpdate =
    Update string string string nat
  | UpdateResponse string string nat

fun updateUser :: "historyUpdate \<Rightarrow> string" where
  "updateUser (Update u _ _ _) = u"
| "updateUser (UpdateResponse u _ _) = u"

fun pushed :: "historyUpdate \<Rightarrow> conversationMessage list" where
  "pushed (Update u m a t) =
     \<lparr>role = User, content = m, timestamp = t\<rparr> #
       (if a \<noteq> [] then [\<lparr>role = Assistant, content = a, timestamp = t\<rparr>] else [])"
| "pushed (UpdateResponse u a t) = [\<lparr>role = Assistant, content = a, timestamp = t\<rparr>]"

fun applyUpdate :: "conversationStore \<Rightarrow> historyUpdate \<Rightarrow> conversationStore" where
  "applyUpdate st (Update u m a t) = updateConversationHistory st u m a t"
| "applyUpdate st (UpdateResponse u a t) = updateConversationHistoryResponse st u a t"

definition runUpdates :: "conversationStore \<Rightarrow> historyUpdate list \<Rightarrow> conversationStore" where
  "runUpdates st ups = foldl applyUpdate st ups"

definition pushedFor :: "string \<Rightarrow> historyUpdate list \<Rightarrow> conversationMessage list" where
  "pushedFor userId ups = concat (map pushed (filter (\<lambda>up. updateUser up = userId) ups))"

text \<open>The legacy class has the one update, which always pushes a pair.\<close>

type_synonym legacyUpdate = "string \<times> string \<times> string \<times> nat"

fun pushedLegacy :: "legacyUpdate \<Rightarrow> conversationMessage list" where
  "pushedLegacy (u, m, a, t) =
     [\<lparr>role = User, content = m, timestamp = t\<rparr>, \<lparr>role = Assistant, content = a, timestamp = t\<rparr>]"

fun applyLegacyUpdate :: "conversationStore \<Rightarrow> legacyUpdate \<Rightarrow> conversationStore" where
  "applyLegacyUpdate st (u, m, a, t) = updateConversationHistoryLegacy st u m a t"

definition runLegacyUpdates :: "conversationStore \<Rightarrow> legacyUpdate list \<Rightarrow> conversationStore" where
  "runLegacyUpdates st ups = foldl applyLegacyUpdate st ups"

definition pushedForLegacy :: "string \<Rightarrow> legacyUpdate list \<Rightarrow> conversationMessage list" where
  "pushedForLegacy userId ups = concat (map pushedLegacy (filter (\<lambda>up. fst up = userId) ups))"

definition lastN :: "nat \<Rightarrow> 'a list \<Rightarrow> 'a list" where
  \<comment> \<open>the most recent \<open>n\<close> entries, in their order\<close>
  "lastN n xs = drop (length xs - n) xs"


section \<open>Strings\<close>

text \<open>
  A JavaScript string is a sequence of 16-bit code units; the model has the code units
  below 256, which covers every pattern and keyword of the source except the cedi sign.
  \<^verbatim>\<open>toLowerCase\<close> maps \<open>A\<close> to \<open>Z\<close> and the Latin-1 capitals to their small letters.
\<close>

definition toLowerChar :: "char \<Rightarrow> char" where
  "toLowerChar c =
     (let n = (of_char c :: nat) in
      if (65 \<le> n \<and> n \<le> 90) \<or> (192 \<le> n \<and> n \<le> 222 \<and> n \<noteq> 215) then char_of (n + 32) else c)"

definition toLowerCase :: "string \<Rightarrow> string" where
  "toLowerCase s = map toLowerChar s"

fun startsWith :: "string \<Rightarrow> string \<Rightarrow> bool" where
  \<comment> \<open>\<open>startsWith p s\<close>: \<open>s\<close> begins with \<open>p\<close>\<close>
  "startsWith [] s = True"
| "startsWith (p # ps) [] = False"
| "startsWith (p # ps) (c # cs) = (p = c \<and> startsWith ps cs)"

fun includesStr :: "string \<Rightarrow> string \<Rightarrow> bool" where
  \<comment> \<open>\<^verbatim>\<open>s.includes(p)\<close>\<close>
  "includesStr [] p = startsWith p []"
| "includesStr (c # cs) p = (startsWith p (c # cs) \<or> includesStr cs p)"


section \<open>Numbers\<close>

text \<open>
  A JavaScript number is an IEEE 754 double: a finite value, \<^verbatim>\<open>NaN\<close>, or one of the two
  infinities. \<open>Fin x\<close> is the finite double whose value is the rational \<open>x\<close>; the two zeros
  are one value, \<open>Fin 0\<close>. Every arithmetic operation of the language returns the exact
  result rounded to the nearest double, the even one of two (\<open>toDouble\<close>): the significand
  has 53 bits, the smallest exponent is \<open>-1022\<close> (below it the spacing stays \<open>2^-1074\<close>), and
  a result that rounds to \<open>2^1024\<close> or more is infinite.
\<close>

datatype jsnum = Fin rat | NaN | PosInf | NegInf

function bitLength :: "int \<Rightarrow> int" where
  \<comment> \<open>the number of binary digits of a positive \<open>n\<close>\<close>
  "bitLength n = (if n \<le> 0 then 0 else 1 + bitLength (n div 2))"
  by pat_completeness auto

termination bitLength
  by (relation "measure nat") auto

declare bitLength.simps [simp del]

definition ilog2 :: "rat \<Rightarrow> int" where
  \<comment> \<open>for \<open>a > 0\<close>, the exponent \<open>e\<close> with \<open>2^e \<le> a < 2^(e+1)\<close>\<close>
  "ilog2 a =
     (if 1 \<le> a then bitLength \<lfloor>a\<rfloor> - 1
      else - bitLength (\<lceil>1 / a\<rceil> - 1))"

definition pow2 :: "int \<Rightarrow> rat" where
  "pow2 k = (if 0 \<le> k then 2 ^ nat k else 1 / 2 ^ nat (- k))"

definition roundHalfEven :: "rat \<Rightarrow> int" where
  "roundHalfEven y =
     (let f = \<lfloor>y\<rfloor>; d = y - of_int f in
      if d < 1/2 then f else if 1/2 < d then f + 1 else if even f then f else f + 1)"

definition toDouble :: "rat \<Rightarrow> jsnum" where
  \<comment> \<open>\<open>e\<close> is the exponent of the result's binade, \<open>q\<close> the spacing of the doubles there
      and \<open>m\<close> the rounded significand, at most \<open>2^53\<close>; the value \<open>m * q\<close> reaches \<open>2^1024\<close>
      when \<open>e\<close> is above 1023, or is 1023 and \<open>m\<close> has been rounded up to \<open>2^53\<close>\<close>
  "toDouble x =
     (if x = 0 then Fin 0
      else
        (let a = \<bar>x\<bar>;
             e = max (ilog2 a) (- 1022);
             q = pow2 (e - 52);
             m = roundHalfEven (a / q)
         in if 1024 \<le> e \<or> (e = 1023 \<and> 2 ^ 53 \<le> m)
            then (if 0 < x then PosInf else NegInf)
            else Fin (if 0 < x then of_int m * q else - (of_int m * q))))"

definition literal :: "rat \<Rightarrow> rat" where
  \<comment> \<open>the value of a decimal literal of the source that denotes a finite double, such as
      \<^verbatim>\<open>0.95\<close>\<close>
  "literal x = (case toDouble x of Fin v \<Rightarrow> v | _ \<Rightarrow> 0)"

text \<open>
  The operations that the modelled code applies to numbers. In every product, quotient
  and difference of the source one operand is a positive literal or one of the four
  positive rates, so these take that operand as a rational.
\<close>

fun truthyNum :: "jsnum \<Rightarrow> bool" where
  \<comment> \<open>\<^verbatim>\<open>0\<close> and \<^verbatim>\<open>NaN\<close> are falsy\<close>
  "truthyNum (Fin x) = (x \<noteq> 0)"
| "truthyNum NaN = False"
| "truthyNum PosInf = True"
| "truthyNum NegInf = True"

fun jsLess :: "jsnum \<Rightarrow> jsnum \<Rightarrow> bool" where
  \<comment> \<open>\<^verbatim>\<open>a < b\<close>: false when either is \<^verbatim>\<open>NaN\<close>\<close>
  "jsLess (Fin a) (Fin b) = (a < b)"
| "jsLess (Fin a) PosInf = True"
| "jsLess NegInf (Fin b) = True"
| "jsLess NegInf PosInf = True"
| "jsLess a b = False"

definition mathMax :: "jsnum \<Rightarrow> jsnum \<Rightarrow> jsnum" where
  \<comment> \<open>\<^verbatim>\<open>Math.max(a, b)\<close>\<close>
  "mathMax a b = (if a = NaN \<or> b = NaN then NaN else if jsLess a b then b else a)"

definition mathMin :: "jsnum \<Rightarrow> jsnum \<Rightarrow> jsnum" where
  \<comment> \<open>\<^verbatim>\<open>Math.min(a, b)\<close>\<close>
  "mathMin a b = (if a = NaN \<or> b = NaN then NaN else if jsLess b a then b else a)"

fun mathRound :: "jsnum \<Rightarrow> jsnum" where
  \<comment> \<open>\<^verbatim>\<open>Math.round(x)\<close>: the integer nearest to the double \<open>x\<close>, the larger one of two\<close>
  "mathRound (Fin x) = Fin (of_int \<lfloor>x + 1/2\<rfloor>)"
| "mathRound x = x"

fun mathAbs :: "jsnum \<Rightarrow> jsnum" where
  "mathAbs (Fin x) = Fin \<bar>x\<bar>"
| "mathAbs NaN = NaN"
| "mathAbs x = PosInf"

fun jsTimes :: "jsnum \<Rightarrow> rat \<Rightarrow> jsnum" where
  \<comment> \<open>\<^verbatim>\<open>x * c\<close> for a positive finite \<open>c\<close>\<close>
  "jsTimes (Fin x) c = toDouble (x * c)"
| "jsTimes x c = x"

fun jsDividedBy :: "jsnum \<Rightarrow> rat \<Rightarrow> jsnum" where
  \<comment> \<open>\<^verbatim>\<open>x / c\<close> for a positive finite \<open>c\<close>\<close>
  "jsDividedBy (Fin x) c = toDouble (x / c)"
| "jsDividedBy x c = x"

fun jsMinus :: "jsnum \<Rightarrow> rat \<Rightarrow> jsnum" where
  \<comment> \<open>\<^verbatim>\<open>x - c\<close> for a finite \<open>c\<close>\<close>
  "jsMinus (Fin x) c = toDouble (x - c)"
| "jsMinus x c = x"

fun jsMinusFrom :: "rat \<Rightarrow> jsnum \<Rightarrow> jsnum" where
  \<comment> \<open>\<^verbatim>\<open>c - x\<close> for a finite \<open>c\<close>\<close>
  "jsMinusFrom c (Fin x) = toDouble (c - x)"
| "jsMinusFrom c NaN = NaN"
| "jsMinusFrom c PosInf = NegInf"
| "jsMinusFrom c NegInf = PosInf"

text \<open>
  \<^verbatim>\<open>x.toFixed(0)\<close> writes the integer nearest to \<open>x\<close>, away from zero when two are equally
  near, with the sign of \<open>x\<close> in front; a number that is not finite or is \<open>10^21\<close> or more
  in size is written as \<^verbatim>\<open>String(x)\<close>.
\<close>

datatype fixedText = Whole int | MinusWhole int | AsString jsnum

fun toFixed0 :: "jsnum \<Rightarrow> fixedText" where
  "toFixed0 (Fin x) =
     (if 10 ^ 21 \<le> \<bar>x\<bar> then AsString (Fin x)
      else if x < 0 then MinusWhole \<lfloor>- x + 1/2\<rfloor>
      else Whole \<lfloor>x + 1/2\<rfloor>)"
| "toFixed0 x = AsString x"

section \<open>JSON values\<close>

text \<open>
  \<^verbatim>\<open>JSON.parse\<close> returns a value of type \<^verbatim>\<open>any\<close>: \<^verbatim>\<open>null\<close>, a boolean, a number, a string,
  an array or a plain object. \<open>JNum r\<close> is a number written as the decimal \<open>r\<close>; its value is
  the double \<open>toDouble r\<close>. An object is the list of its members in the order of the text;
  of two members with one name the later one is the property.
\<close>

datatype json =
    JNull
  | JBool bool
  | JNum rat
  | JStr string
  | JArr "json list"
  | JObj "(string \<times> json) list"

fun truthyJson :: "json \<Rightarrow> bool" where
  \<comment> \<open>\<^verbatim>\<open>null\<close>, \<^verbatim>\<open>false\<close>, \<^verbatim>\<open>0\<close> and \<^verbatim>\<open>''\<close> are falsy; arrays and objects are truthy\<close>
  "truthyJson JNull = False"
| "truthyJson (JBool b) = b"
| "truthyJson (JNum r) = truthyNum (toDouble r)"
| "truthyJson (JStr s) = (s \<noteq> [])"
| "truthyJson (JArr xs) = True"
| "truthyJson (JObj kvs) = True"

fun readProperty :: "json \<Rightarrow> string \<Rightarrow> json option" where
  \<comment> \<open>\<^verbatim>\<open>v.name\<close> for a value \<open>v\<close> that is not \<^verbatim>\<open>null\<close> and a name that no prototype defines
      (every name the scorers read is such a name); \<open>None\<close> is \<^verbatim>\<open>undefined\<close>\<close>
  "readProperty (JObj kvs) name = map_of (rev kvs) name"
| "readProperty v name = None"

definition orJson :: "json option \<Rightarrow> json \<Rightarrow> json" where
  \<comment> \<open>\<^verbatim>\<open>x || d\<close>\<close>
  "orJson x d = (case x of None \<Rightarrow> d | Some v \<Rightarrow> if truthyJson v then v else d)"

text \<open>
  Conversion to a string (in a template, or by \<^verbatim>\<open>Array.prototype.join\<close>) calls the
  \<^verbatim>\<open>toString\<close> of an object. A parsed object inherits \<^verbatim>\<open>Object.prototype.toString\<close>, unless
  it has a member of that name, which is never a function: then the conversion throws a
  \<^verbatim>\<open>TypeError\<close>. An array joins the strings of its elements, \<^verbatim>\<open>null\<close> counting as the empty
  string.
\<close>

fun toStringThrows :: "json \<Rightarrow> bool" where
  "toStringThrows (JObj kvs) = (''toString'' \<in> fst ` set kvs)"
| "toStringThrows (JArr xs) = (\<exists>x \<in> set xs. toStringThrows x)"
| "toStringThrows v = False"

text \<open>
  Conversion of a string to a number (\<^verbatim>\<open>StringToNumber\<close>): white space at both ends is
  dropped; the empty string is 0; a string of decimal digits is their value; a string
  whose first character can begin no numeric literal (it is no digit, sign, point or
  \<open>I\<close>) is \<^verbatim>\<open>NaN\<close>. The other strings (signs, fractions, exponents, the other bases,
  \<^verbatim>\<open>Infinity\<close>, more than 20 digits) are not described here.
\<close>

datatype conversion = Converted jsnum | ConversionThrows | ConversionNotModelled

definition isStrWhiteSpace :: "char \<Rightarrow> bool" where
  "isStrWhiteSpace c = ((of_char c :: nat) \<in> {9, 10, 11, 12, 13, 32, 160})"

definition isDecimalDigit :: "char \<Rightarrow> bool" where
  "isDecimalDigit c = (48 \<le> (of_char c :: nat) \<and> (of_char c :: nat) \<le> 57)"

definition trimString :: "string \<Rightarrow> string" where
  "trimString s = rev (dropWhile isStrWhiteSpace (rev (dropWhile isStrWhiteSpace s)))"

definition decimalValue :: "string \<Rightarrow> int" where
  "decimalValue s = foldl (\<lambda>n c. 10 * n + (int (of_char c) - 48)) 0 s"

definition stringToNumber :: "string \<Rightarrow> conversion" where
  "stringToNumber s =
     (let t = trimString s in
      if t = [] then Converted (Fin 0)
      else if hd t \<notin> set ''+-.0123456789I'' then Converted NaN
      else if list_all isDecimalDigit t \<and> length t \<le> 20
        then Converted (toDouble (of_int (decimalValue t)))
      else ConversionNotModelled)"

fun toNumber :: "json \<Rightarrow> conversion" where
  \<comment> \<open>\<^verbatim>\<open>ToNumber\<close>, as \<^verbatim>\<open>Math.max\<close> and \<^verbatim>\<open>Math.min\<close> apply it to their arguments. An object
      becomes the string \<^verbatim>\<open>'[object Object]'\<close> and so \<^verbatim>\<open>NaN\<close>; an array becomes the string
      of its elements, which is empty for the empty array\<close>
  "toNumber JNull = Converted (Fin 0)"
| "toNumber (JBool b) = Converted (Fin (if b then 1 else 0))"
| "toNumber (JNum r) = Converted (toDouble r)"
| "toNumber (JStr s) = stringToNumber s"
| "toNumber (JArr xs) =
     (if toStringThrows (JArr xs) then ConversionThrows
      else if xs = [] then Converted (Fin 0)
      else ConversionNotModelled)"
| "toNumber (JObj kvs) =
     (if toStringThrows (JObj kvs) then ConversionThrows else Converted NaN)"

section \<open>Lead scoring\<close>

text \<open>
  Both scorers build a prompt, ask the completion service, parse the reply with
  \<^verbatim>\<open>JSON.parse(analysisText || '{}')\<close> and validate the parsed value. The prompt is built
  before the \<^verbatim>\<open>try\<close>; the call, the parse and the validation are inside it, and its
  \<^verbatim>\<open>catch\<close> returns a fixed object.

  The \<^verbatim>\<open>analysis\<close> argument is what \<open>analyzeUserInput\<close> made of a parsed reply (in the legacy
  class, the parsed reply itself): a JSON value. The outcome of the call and the parse
  is an error or the parsed value.
\<close>

datatype llmError = CompletionFailed | UnparseableContent

text \<open>
  The reason texts are template strings; the model keeps the template and its holes:
  \<^item> \<open>ReasonGiven r\<close>: the reply's own \<^verbatim>\<open>reason\<close>;
  \<^item> \<open>ReasonCompleted\<close>: \<^verbatim>\<open>'Conversation-aware analysis completed'\<close>;
  \<^item> \<open>ReasonBelow s t new\<close>: \<^verbatim>\<open>`Score ${s.toFixed(1)}/10 below threshold (${t}) for
     ${new ? 'new' : 'engaged'} conversation`\<close>;
  \<^item> \<open>ReasonFirstMessage r\<close>: \<^verbatim>\<open>`First message requires very strong signals (8.5+): ${r}`\<close>;
  \<^item> \<open>ReasonFailed\<close>: \<^verbatim>\<open>'Analysis failed - defaulting to conservative approach'\<close>.
\<close>

datatype reasonText =
    ReasonGiven json
  | ReasonCompleted
  | ReasonBelow jsnum rat bool
  | ReasonFirstMessage reasonText
  | ReasonFailed

record leadAnalysisResult =
  shouldCapture :: json
  confidence :: jsnum
  score :: jsnum
  reason :: reasonText
  riskFactors :: json
  positiveSignals :: json

text \<open>
  What a call of a scorer does: it returns a result, or it throws (the promise is
  rejected), or the run converts a value to a number in a way that is not described
  (see \<open>stringToNumber\<close> and \<open>toNumber\<close>).
\<close>

datatype scorerOutcome = Returned leadAnalysisResult | Thrown | OutcomeNotModelled

definition leadFallback :: leadAnalysisResult where
  \<comment> \<open>the object both \<^verbatim>\<open>catch\<close> branches return (lines 948-955 and 2297-2304)\<close>
  "leadFallback =
     \<lparr>shouldCapture = JBool False, confidence = Fin (literal (1/10)), score = Fin 0,
      reason = ReasonFailed,
      riskFactors = JArr [JStr ''AI analysis unavailable''], positiveSignals = JArr []\<rparr>"

definition templateThrows :: "json option \<Rightarrow> bool" where
  \<comment> \<open>\<^verbatim>\<open>`${x}`\<close>: \<^verbatim>\<open>undefined\<close> is written as it is\<close>
  "templateThrows x = (case x of None \<Rightarrow> False | Some v \<Rightarrow> toStringThrows v)"

definition joinThrows :: "json option \<Rightarrow> bool" where
  \<comment> \<open>\<^verbatim>\<open>x?.join(', ')\<close>: nothing is called on \<^verbatim>\<open>undefined\<close> and \<^verbatim>\<open>null\<close>; only an array has
      a \<^verbatim>\<open>join\<close> method, and calling what is not a function throws a \<^verbatim>\<open>TypeError\<close>\<close>
  "joinThrows x =
     (case x of
        None \<Rightarrow> False
      | Some JNull \<Rightarrow> False
      | Some (JArr xs) \<Rightarrow> toStringThrows (JArr xs)
      | Some v \<Rightarrow> True)"

definition promptThrows :: "json \<Rightarrow> bool" where
  \<comment> \<open>lines 842-895 and 2191-2244: the prompt reads five properties of the analysis\<close>
  "promptThrows analysis =
     (analysis = JNull
      \<or> templateThrows (readProperty analysis ''primaryIntent'')
      \<or> templateThrows (readProperty analysis ''leadReadiness'')
      \<or> templateThrows (readProperty analysis ''urgencyLevel'')
      \<or> joinThrows (readProperty analysis ''buyingSignals'')
      \<or> templateThrows (readProperty analysis ''emotionalState''))"

definition reasonOf :: "json \<Rightarrow> reasonText" where
  \<comment> \<open>\<^verbatim>\<open>leadAnalysis.reason || 'Conversation-aware analysis completed'\<close>\<close>
  "reasonOf leadAnalysis =
     (case readProperty leadAnalysis ''reason'' of
        None \<Rightarrow> ReasonCompleted
      | Some r \<Rightarrow> if truthyJson r then ReasonGiven r else ReasonCompleted)"

fun reasonThrows :: "reasonText \<Rightarrow> bool" where
  \<comment> \<open>\<^verbatim>\<open>`...: ${result.reason}`\<close>\<close>
  "reasonThrows (ReasonGiven r) = toStringThrows r"
| "reasonThrows r = False"

definition validateLeadAnalysis :: "nat \<Rightarrow> json \<Rightarrow> scorerOutcome" where
  \<comment> \<open>lines 917-943 and, with the same text, 2266-2292, inside the \<^verbatim>\<open>try\<close>: a property read
      of \<^verbatim>\<open>null\<close> and a conversion that throws end in the \<^verbatim>\<open>catch\<close> branch\<close>
  "validateLeadAnalysis messageCount leadAnalysis =
     (if leadAnalysis = JNull then Returned leadFallback
      else
        (case toNumber (orJson (readProperty leadAnalysis ''confidence'') (JNum (1/2))) of
           ConversionThrows \<Rightarrow> Returned leadFallback
         | ConversionNotModelled \<Rightarrow> OutcomeNotModelled
         | Converted c \<Rightarrow>
             (case toNumber (orJson (readProperty leadAnalysis ''score'') (JNum 0)) of
                ConversionThrows \<Rightarrow> Returned leadFallback
              | ConversionNotModelled \<Rightarrow> OutcomeNotModelled
              | Converted s \<Rightarrow>
                  (let result =
                         \<lparr>shouldCapture = orJson (readProperty leadAnalysis ''shouldCapture'') (JBool False),
                          confidence = mathMin (Fin 1) (mathMax (Fin 0) c),
                          score = mathMin (Fin 10) (mathMax (Fin 0) s),
                          reason = reasonOf leadAnalysis,
                          riskFactors = orJson (readProperty leadAnalysis ''riskFactors'') (JArr []),
                          positiveSignals =
                            orJson (readProperty leadAnalysis ''positiveSignals'') (JArr [])\<rparr>;
                       threshold = (if messageCount < 2 then 8 else 13/2);
                       result1 =
                         (if jsLess (score result) (Fin threshold) then
                            result\<lparr>shouldCapture := JBool False,
                                   reason :=
                                     ReasonBelow (score result) threshold (messageCount < 2)\<rparr>
                          else result)
                   in if messageCount = 0 \<and> jsLess (score result1) (Fin (17/2)) then
                        (if reasonThrows (reason result1) then Returned leadFallback
                         else Returned (result1\<lparr>shouldCapture := JBool False,
                                                 reason := ReasonFirstMessage (reason result1)\<rparr>))
                      else Returned result1))))"

definition shouldCaptureLead ::
  "string \<Rightarrow> json \<Rightarrow> conversationMessage list \<Rightarrow> llmError + json \<Rightarrow> scorerOutcome" where
  \<comment> \<open>lines 831-957: \<open>conversationHistory\<close> is the history of the user (the empty list when
      no user id is given) and \<^verbatim>\<open>messageCount = Math.floor(conversationHistory.length / 2)\<close>;
      \<open>outcome\<close> is what the completion call and \<^verbatim>\<open>JSON.parse\<close> give when they are reached\<close>
  "shouldCaptureLead userMessage analysis conversationHistory outcome =
     (let messageCount = length conversationHistory div 2 in
      if promptThrows analysis then Thrown
      else
        (case outcome of
           Inl err \<Rightarrow> Returned leadFallback
         | Inr leadAnalysis \<Rightarrow> validateLeadAnalysis messageCount leadAnalysis))"

definition analyzeLeadCaptureIntent ::
  "string \<Rightarrow> json \<Rightarrow> conversationMessage list \<Rightarrow> nat \<Rightarrow> llmError + json \<Rightarrow> scorerOutcome"
  where
  \<comment> \<open>lines 2175-2306 of the legacy class; \<open>messageCount\<close> is an argument there\<close>
  "analyzeLeadCaptureIntent userMessage analysis conversationHistory messageCount outcome =
     (if promptThrows analysis then Thrown
      else
        (case outcome of
           Inl err \<Rightarrow> Returned leadFallback
         | Inr leadAnalysis \<Rightarrow> validateLeadAnalysis messageCount leadAnalysis))"

section \<open>Lead service\<close>





text \<open>\<^verbatim>\<open>createLead(leadData: any)\<close> and the helpers read these properties of their argument.\<close>

record leadData =
  data_name :: "string option"
  data_email :: "string option"
  data_phone :: "string option"
  data_source :: "string option"
  data_interests :: "string list option"
  data_urgencyLevel :: "string option"

definition truthyStr :: "string option \<Rightarrow> bool" where
  "truthyStr x = (case x of None \<Rightarrow> False | Some s \<Rightarrow> s \<noteq> [])"



text \<open>
  \<open>calculateLeadScore\<close> looks the source up in a plain object,
  \<^verbatim>\<open>sourceScores[leadData.source] || 5\<close>. The object has seven properties of its own, all
  numbers that are not zero, and it inherits the properties of \<^verbatim>\<open>Object.prototype\<close>, which
  are functions (\<^verbatim>\<open>__proto__\<close> is the prototype object itself). Adding a function or an
  object to the number \<^verbatim>\<open>score\<close> makes a string, and \<^verbatim>\<open>Math.max(0, score)\<close> of that string
  is \<^verbatim>\<open>NaN\<close>. A source that is absent is looked up as \<^verbatim>\<open>'undefined'\<close>, which is no property.
\<close>

definition sourceScores :: "string \<rightharpoonup> rat" where
  \<comment> \<open>the own properties of the table\<close>
  "sourceScores =
     [''viral_quiz'' \<mapsto> 20, ''viral_challenge'' \<mapsto> 18, ''qr_code'' \<mapsto> 15, ''referral'' \<mapsto> 25,
      ''social_media'' \<mapsto> 10, ''web_form'' \<mapsto> 12, ''chat'' \<mapsto> 15]"

definition objectPrototypeKeys :: "string list" where
  \<comment> \<open>the property names of \<^verbatim>\<open>Object.prototype\<close>\<close>
  "objectPrototypeKeys =
     [''constructor'', ''hasOwnProperty'', ''isPrototypeOf'', ''propertyIsEnumerable'',
      ''toLocaleString'', ''toString'', ''valueOf'', ''__proto__'', ''__defineGetter__'',
      ''__defineSetter__'', ''__lookupGetter__'', ''__lookupSetter__'']"

datatype tableEntry = OwnNumber rat | InheritedObject | NoProperty

definition sourceScoresLookup :: "string option \<Rightarrow> tableEntry" where
  \<comment> \<open>\<^verbatim>\<open>sourceScores[leadData.source]\<close>\<close>
  "sourceScoresLookup source =
     (case source of
        None \<Rightarrow> NoProperty
      | Some k \<Rightarrow>
          (case sourceScores k of
             Some v \<Rightarrow> OwnNumber v
           | None \<Rightarrow> if k \<in> set objectPrototypeKeys then InheritedObject else NoProperty))"

definition calculateLeadScore :: "leadData \<Rightarrow> jsnum" where
  \<comment> \<open>\<^verbatim>\<open>LeadService.ts\<close> lines 118-144; the sums are whole numbers up to 120, which are
      exact in doubles\<close>
  "calculateLeadScore d =
     (let s0 = 0;
          s1 = (if truthyStr (data_email d) then s0 + 20 else s0);
          s2 = (if truthyStr (data_phone d) then s1 + 25 else s1);
          s3 = (if truthyStr (data_name d) then s2 + 15 else s2);
          s4 = (if (case data_interests d of None \<Rightarrow> False | Some xs \<Rightarrow> length xs > 0)
                then s3 + 20 else s3);
          s5 = (if data_urgencyLevel d = Some ''high'' then s4 + 15 else s4);
          s6 = (if data_urgencyLevel d = Some ''medium'' then s5 + 10 else s5)
      in case sourceScoresLookup (data_source d) of
           OwnNumber v \<Rightarrow> mathMin (Fin 100) (mathMax (Fin 0) (Fin (s6 + v)))
         | NoProperty \<Rightarrow> mathMin (Fin 100) (mathMax (Fin 0) (Fin (s6 + 5)))
         | InheritedObject \<Rightarrow> mathMin (Fin 100) (mathMax (Fin 0) NaN))"

definition jsAtLeast :: "jsnum \<Rightarrow> rat \<Rightarrow> bool" where
  \<comment> \<open>\<^verbatim>\<open>x >= c\<close>\<close>
  "jsAtLeast x c = (case x of Fin v \<Rightarrow> c \<le> v | PosInf \<Rightarrow> True | _ \<Rightarrow> False)"




section \<open>Premium calculation\<close>

text \<open>
  \<^verbatim>\<open>calculatePremium(insuranceType: string, params: any)\<close> reads properties of a plain
  object. A property is absent (\<open>None\<close>, the \<^verbatim>\<open>undefined\<close> of the source) or holds a number,
  a string or a list of strings. Truthiness is JavaScript's: \<^verbatim>\<open>undefined\<close>, \<^verbatim>\<open>0\<close>, \<^verbatim>\<open>NaN\<close>
  and \<^verbatim>\<open>''\<close> are falsy, every array is truthy.
\<close>

datatype paramValue = PNum jsnum | PStr string | PList "string list"

type_synonym params = "string \<rightharpoonup> paramValue"

fun truthy :: "paramValue option \<Rightarrow> bool" where
  "truthy None = False"
| "truthy (Some (PNum n)) = truthyNum n"
| "truthy (Some (PStr s)) = (s \<noteq> [])"
| "truthy (Some (PList xs)) = True"

definition jsOr :: "paramValue option \<Rightarrow> paramValue option \<Rightarrow> paramValue option" where
  \<comment> \<open>\<^verbatim>\<open>a || b\<close>\<close>
  "jsOr a b = (if truthy a then a else b)"

definition spread :: "params \<Rightarrow> params \<Rightarrow> params" where
  \<comment> \<open>\<^verbatim>\<open>{ ...a, ...b }\<close>: the properties of \<open>b\<close> win\<close>
  "spread a b = a ++ b"

text \<open>
  \<^verbatim>\<open>PremiumCalculationService\<close> comes from \<^verbatim>\<open>../types/unified-rag\<close>, which is not among the
  sources. Its two functions are parameters of the model: each takes the object that
  \<open>calculatePremium\<close> builds and returns \<^verbatim>\<open>{premium, breakdown}\<close>, or throws (\<open>None\<close>).
  A breakdown is a set of named numbers.
\<close>

type_synonym breakdown = "string \<rightharpoonup> jsnum"

record premiumResult =
  premium :: jsnum
  breakdown :: breakdown

record autoPremiumInput =
  vehicleValue :: "paramValue option"
  vehicleAge :: "paramValue option"
  driverAge :: "paramValue option"
  location :: "paramValue option"
  coverageType :: "paramValue option"
  drivingHistory :: "paramValue option"
  securityFeatures :: "paramValue option"

record healthPremiumInput =
  age :: "paramValue option"
  planType :: "paramValue option"
  familySize :: "paramValue option"
  preExistingConditions :: "paramValue option"
  smokingStatus :: "paramValue option"
  occupation :: "paramValue option"

record premiumCalculationService =
  calculateAutoPremium :: "autoPremiumInput \<Rightarrow> premiumResult option"
  calculateHealthPremium :: "healthPremiumInput \<Rightarrow> premiumResult option"

text \<open>
  The result of \<open>calculatePremium\<close>: \<^verbatim>\<open>{success: true, premium, breakdown}\<close> or
  \<^verbatim>\<open>{success: false, error}\<close>. The life branch computes with \<^verbatim>\<open>params.age\<close> and
  \<^verbatim>\<open>params.coverage\<close>; when one of them holds a string or an array, JavaScript converts it
  to a number first, which the model does not describe: that case is \<open>NonNumericInput\<close>.
\<close>

datatype calculationResult =
    Success jsnum breakdown
  | Failure string
  | NonNumericInput

definition hasRequiredAutoParams :: "params \<Rightarrow> bool" where
  \<comment> \<open>line 1461: \<^verbatim>\<open>!!(params.vehicleValue && params.age && params.location)\<close>\<close>
  "hasRequiredAutoParams p =
     (truthy (p ''vehicleValue'') \<and> truthy (p ''age'') \<and> truthy (p ''location''))"

definition hasRequiredHealthParams :: "params \<Rightarrow> bool" where
  \<comment> \<open>line 1465: \<^verbatim>\<open>!!(params.age)\<close>\<close>
  "hasRequiredHealthParams p = truthy (p ''age'')"

definition autoInput :: "params \<Rightarrow> autoPremiumInput" where
  \<comment> \<open>lines 647-655, the argument of \<^verbatim>\<open>calculateAutoPremium\<close>\<close>
  "autoInput p =
     \<lparr>vehicleValue = jsOr (p ''vehicleValue'') (p ''vehicle_value''),
      vehicleAge = jsOr (p ''vehicleAge'') (p ''vehicle_age''),
      driverAge = jsOr (jsOr (p ''driverAge'') (p ''driver_age'')) (p ''age''),
      location = p ''location'',
      coverageType =
        jsOr (jsOr (p ''coverageType'') (p ''coverage_type'')) (Some (PStr ''comprehensive'')),
      drivingHistory =
        jsOr (jsOr (p ''drivingHistory'') (p ''driving_history'')) (Some (PStr ''clean'')),
      securityFeatures =
        jsOr (jsOr (p ''securityFeatures'') (p ''security_features'')) (Some (PList []))\<rparr>"

definition healthInput :: "params \<Rightarrow> healthPremiumInput" where
  \<comment> \<open>lines 664-671, the argument of \<^verbatim>\<open>calculateHealthPremium\<close>\<close>
  "healthInput p =
     \<lparr>age = p ''age'',
      planType = jsOr (jsOr (p ''planType'') (p ''plan_type'')) (Some (PStr ''standard'')),
      familySize = jsOr (jsOr (p ''familySize'') (p ''family_size'')) (Some (PNum (Fin 1))),
      preExistingConditions =
        jsOr (jsOr (p ''preExistingConditions'') (p ''conditions'')) (Some (PList [])),
      smokingStatus =
        jsOr (jsOr (p ''smokingStatus'') (p ''smoking_status'')) (Some (PStr ''non_smoker'')),
      occupation = jsOr (p ''occupation'') (Some (PStr ''general''))\<rparr>"

definition ratePerThousand :: "jsnum \<Rightarrow> rat" where
  \<comment> \<open>line 680: \<^verbatim>\<open>age < 35 ? 3.5 : age < 45 ? 8.5 : age < 55 ? 18.5 : 37.5\<close>\<close>
  "ratePerThousand a =
     (if jsLess a (Fin 35) then 7/2 else if jsLess a (Fin 45) then 17/2
      else if jsLess a (Fin 55) then 37/2 else 75/2)"

definition missingParameters :: string where
  "missingParameters = ''Missing required parameters for calculation''"

definition invalidParameters :: string where
  "invalidParameters = ''Calculation failed due to invalid parameters''"

definition calculatePremium ::
  "premiumCalculationService \<Rightarrow> string \<Rightarrow> params \<Rightarrow> calculationResult" where
  \<comment> \<open>lines 640-707; an exception of the service is caught and becomes the second failure\<close>
  "calculatePremium svc insuranceType p =
     (let t = toLowerCase insuranceType in
      if t = ''auto'' then
        (if hasRequiredAutoParams p then
           (case calculateAutoPremium svc (autoInput p) of
              Some r \<Rightarrow> Success (premium r) (breakdown r)
            | None \<Rightarrow> Failure invalidParameters)
         else Failure missingParameters)
      else if t = ''health'' then
        (if hasRequiredHealthParams p then
           (case calculateHealthPremium svc (healthInput p) of
              Some r \<Rightarrow> Success (premium r) (breakdown r)
            | None \<Rightarrow> Failure invalidParameters)
         else Failure missingParameters)
      else if t = ''life'' then
        (case (jsOr (p ''age'') (Some (PNum (Fin 30))),
               jsOr (jsOr (p ''coverage'') (p ''coverageAmount'')) (Some (PNum (Fin 500000)))) of
           (Some (PNum a), Some (PNum coverage)) \<Rightarrow>
             (let annualPremium = jsTimes (jsDividedBy coverage 1000) (ratePerThousand a) in
              Success (mathRound annualPremium)
                [''baseCoverage'' \<mapsto> coverage,
                 ''ageRate'' \<mapsto> Fin (ratePerThousand a),
                 ''annualPremium'' \<mapsto> mathRound annualPremium,
                 ''monthlyPremium'' \<mapsto> mathRound (jsDividedBy annualPremium 12)])
         | _ \<Rightarrow> NonNumericInput)
      else Failure missingParameters)"

definition getRequiredParametersForType :: "string \<Rightarrow> string list" where
  \<comment> \<open>lines 1314-1327\<close>
  "getRequiredParametersForType insuranceType =
     (let t = toLowerCase insuranceType in
      if t = ''auto'' then [''vehicleValue'', ''age'', ''location'', ''coverageType'']
      else if t = ''health'' then [''age'', ''planType'']
      else if t = ''life'' then [''age'', ''coverage'']
      else if t = ''business'' then [''businessType'', ''revenue'', ''employees'']
      else [''age''])"

text \<open>
  The questions of \<open>generateParameterCollectionMessage\<close> (lines 1336-1357), one for each
  missing parameter that the \<^verbatim>\<open>switch\<close> knows:
  \<^item> \<open>AskVehicleValue\<close>: "What is the current value of your vehicle? (e.g., GH[cedi] 50,000)";
  \<^item> \<open>AskAge\<close>: "What is your age?";
  \<^item> \<open>AskLocation\<close>: "Which city are you based in? (e.g., Accra, Kumasi, Tamale)";
  \<^item> \<open>AskCoverageType\<close>: "Would you prefer comprehensive coverage or third-party only?";
  \<^item> \<open>AskPlanType\<close>: "Which health plan interests you: Basic, Standard, or Premium?";
  \<^item> \<open>AskCoverage\<close>: "How much life insurance coverage would you like? (e.g., GH[cedi] 500,000)".
  The message is the fixed text around the capitalised insurance type, the sentence
  "I have some of your details already." when the parameters have any key, and the
  numbered questions.
\<close>

datatype question =
  AskVehicleValue | AskAge | AskLocation | AskCoverageType | AskPlanType | AskCoverage

definition questionFor :: "string \<Rightarrow> question option" where
  "questionFor param =
     (if param = ''vehicleValue'' then Some AskVehicleValue
      else if param = ''age'' then Some AskAge
      else if param = ''location'' then Some AskLocation
      else if param = ''coverageType'' then Some AskCoverageType
      else if param = ''planType'' then Some AskPlanType
      else if param = ''coverage'' then Some AskCoverage
      else None)"

record collectionMessage =
  insuranceTypeText :: string
  hasSomeDetails :: bool
  questions :: "question list"

definition toUpperChar :: "char \<Rightarrow> char" where
  \<comment> \<open>\<^verbatim>\<open>toUpperCase\<close> of one code unit; the Latin-1 letters whose capital is not one code
      unit below 256 (sharp s, the micro sign, y with diaeresis) are kept as they are\<close>
  "toUpperChar c =
     (let n = (of_char c :: nat) in
      if (97 \<le> n \<and> n \<le> 122) \<or> (224 \<le> n \<and> n \<le> 254 \<and> n \<noteq> 247) then char_of (n - 32) else c)"

definition generateParameterCollectionMessage ::
  "string \<Rightarrow> string list \<Rightarrow> params \<Rightarrow> collectionMessage" where
  \<comment> \<open>lines 1329-1372\<close>
  "generateParameterCollectionMessage insuranceType missingParams existingParams =
     \<lparr>insuranceTypeText =
        (case insuranceType of [] \<Rightarrow> [] | c # cs \<Rightarrow> toUpperChar c # cs),
      hasSomeDetails = (dom existingParams \<noteq> {}),
      questions = List.map_filter questionFor missingParams\<rparr>"

section \<open>Premium responses\<close>

definition detectInsuranceType :: "string \<Rightarrow> string option" where
  \<comment> \<open>lines 1295-1312\<close>
  "detectInsuranceType message =
     (let lowerMessage = toLowerCase message in
      if includesStr lowerMessage ''car'' \<or> includesStr lowerMessage ''vehicle''
         \<or> includesStr lowerMessage ''auto'' then Some ''auto''
      else if includesStr lowerMessage ''health'' \<or> includesStr lowerMessage ''medical''
        then Some ''health''
      else if includesStr lowerMessage ''life'' \<or> includesStr lowerMessage ''death''
        then Some ''life''
      else if includesStr lowerMessage ''business'' \<or> includesStr lowerMessage ''commercial''
        then Some ''business''
      else None)"

text \<open>
  The text of \<open>generatePremiumResponseMessage\<close> (lines 1374-1429) is a template; the model
  keeps every value that the template inserts:
  \<^item> \<open>shownType\<close>: the insurance type of the heading;
  \<^item> \<open>annualShown\<close>: \<^verbatim>\<open>premium.toLocaleString()\<close> of the line "Annual Premium";
  \<^item> \<open>monthlyShown\<close>: \<^verbatim>\<open>Math.round(premium / 12)\<close> of the lines "Monthly Payment" and
    "Monthly via MTN MoMo";
  \<^item> \<open>basePremiumShown\<close>: the line "Base Premium", present when \<^verbatim>\<open>breakdown.basePremium\<close> is
    truthy;
  \<^item> \<open>ageLine\<close>, \<open>locationLine\<close>: the lines \<^verbatim>\<open>`Age ${impact}: ${pct}%`\<close> and
    \<^verbatim>\<open>`Location ${impact}: ${pct}%`\<close>, each with its label and with
    \<^verbatim>\<open>Math.abs((multiplier - 1) * 100).toFixed(0)\<close>, written only for the type \<^verbatim>\<open>'auto'\<close> and a
    multiplier that is not \<^verbatim>\<open>1.0\<close>; an absent multiplier is \<^verbatim>\<open>undefined\<close>, which is not 1.0,
    is not above it, and gives \<^verbatim>\<open>NaN\<close> in the arithmetic;
  \<^item> \<open>includedLines\<close>: the bullet points of "What's Included";
  \<^item> \<open>annualDiscountedShown\<close>: \<^verbatim>\<open>Math.round(premium * 0.95)\<close>.
\<close>

record premiumMessage =
  shownType :: string
  annualShown :: jsnum
  monthlyShown :: jsnum
  basePremiumShown :: "jsnum option"
  ageLine :: "(string \<times> fixedText) option"
  locationLine :: "(string \<times> fixedText) option"
  includedLines :: "string list"
  annualDiscountedShown :: jsnum

definition multiplierLine ::
  "string \<Rightarrow> string \<Rightarrow> jsnum option \<Rightarrow> (string \<times> fixedText) option" where
  \<comment> \<open>lines 1393-1400, for one multiplier: \<open>up\<close> is the label above 1.0\<close>
  "multiplierLine up down m =
     (if m \<noteq> Some (Fin 1) then
        Some ((case m of Some v \<Rightarrow> if jsLess (Fin 1) v then up else down | None \<Rightarrow> down),
              toFixed0 (mathAbs (jsTimes (jsMinus (case m of Some v \<Rightarrow> v | None \<Rightarrow> NaN) 1) 100)))
      else None)"

definition generatePremiumResponseMessage ::
  "jsnum \<Rightarrow> breakdown \<Rightarrow> string \<Rightarrow> params \<Rightarrow> premiumMessage" where
  \<comment> \<open>\<open>amount\<close> and \<open>bd\<close> are the \<^verbatim>\<open>premium\<close> and the \<^verbatim>\<open>breakdown\<close> of the calculation result\<close>
  "generatePremiumResponseMessage amount bd insuranceType p =
     (let monthlyPremium = mathRound (jsDividedBy amount 12) in
      \<lparr>shownType = insuranceType,
       annualShown = amount,
       monthlyShown = monthlyPremium,
       basePremiumShown =
         (case bd ''basePremium'' of
            Some b \<Rightarrow> if truthyNum b then Some b else None
          | None \<Rightarrow> None),
       ageLine =
         (if insuranceType = ''auto''
          then multiplierLine ''increase'' ''discount'' (bd ''ageMultiplier'') else None),
       locationLine =
         (if insuranceType = ''auto''
          then multiplierLine ''surcharge'' ''discount'' (bd ''locationMultiplier'')
          else None),
       includedLines =
         (if insuranceType = ''auto'' then
            (if p ''coverageType'' = Some (PStr ''comprehensive'') then
               [''Comprehensive coverage'', ''Third-party liability'', ''Theft protection'',
                ''Accident damage'', ''Windshield replacement'']
             else [''Third-party liability'', ''Legal compliance'', ''Bodily injury coverage''])
          else if insuranceType = ''health'' then
            [''Outpatient care'', ''Hospitalization'', ''Emergency treatment'',
             ''Specialist consultations'', ''Prescription drugs'']
          else if insuranceType = ''life'' then
            [''Death benefit payout'', ''Family financial protection'',
             ''Funeral expense coverage'', ''Optional accidental death benefit'']
          else []),
       annualDiscountedShown = mathRound (jsTimes amount (literal (95/100)))\<rparr>)"

text \<open>
  The third-party quote of \<open>handlePremiumFollowUp\<close> (lines 467 and 523) inserts the
  premium, \<^verbatim>\<open>Math.round(calculationResult.premium / 12)\<close> and, in the first of the two
  texts only, the saving \<^verbatim>\<open>14688 - calculationResult.premium\<close>.
\<close>

record thirdPartyMessage =
  thirdPartyAnnualShown :: jsnum
  thirdPartyMonthlyShown :: jsnum
  thirdPartySavingShown :: "jsnum option"

definition thirdPartyQuoteMessage :: "bool \<Rightarrow> jsnum \<Rightarrow> thirdPartyMessage" where
  "thirdPartyQuoteMessage withSaving amount =
     \<lparr>thirdPartyAnnualShown = amount,
      thirdPartyMonthlyShown = mathRound (jsDividedBy amount 12),
      thirdPartySavingShown = (if withSaving then Some (jsMinusFrom 14688 amount) else None)\<rparr>"

text \<open>
  The responses of \<open>handlePremiumCalculation\<close> (lines 301-404) and of
  \<open>handlePremiumFollowUp\<close> (lines 409-635), by their \<^verbatim>\<open>nextAction\<close>:
  \<^item> \<open>RestartCalculation\<close>: \<^verbatim>\<open>'restart_calculation'\<close>;
  \<^item> \<open>PresentThirdPartyQuote m amount breakdown\<close>: \<^verbatim>\<open>'present_third_party_quote'\<close>, with the
    message and the \<^verbatim>\<open>premiumQuote\<close>;
  \<^item> \<open>PresentThirdPartyOption\<close>: \<^verbatim>\<open>'present_third_party_option'\<close>, a fixed text;
  \<^item> \<open>ExplainCoverageOptions\<close>, \<open>EncourageApplication\<close>, \<open>ScheduleSpecialistCall\<close>,
    \<open>ClarifyUserIntent\<close>, \<open>ProvideMoreInfo\<close>: the fixed texts of \<^verbatim>\<open>'explain_coverage_options'\<close>,
    \<^verbatim>\<open>'encourage_application'\<close>, \<^verbatim>\<open>'schedule_specialist_call'\<close>, \<^verbatim>\<open>'clarify_user_intent'\<close> and
    \<^verbatim>\<open>'provide_more_info'\<close>;
  \<^item> \<open>CollectInsuranceType\<close>: \<^verbatim>\<open>'collect_insurance_type'\<close>;
  \<^item> \<open>CollectParameters m missing\<close>: \<^verbatim>\<open>'collect_parameters'\<close>, with the message and
    \<^verbatim>\<open>usedKnowledge.missingParams\<close>;
  \<^item> \<open>PremiumPresented m amount breakdown\<close>: \<^verbatim>\<open>'premium_presented'\<close>, with the message and the
    \<^verbatim>\<open>premiumQuote\<close>;
  \<^item> \<open>CollectAdditionalInfo e\<close>: \<^verbatim>\<open>'collect_additional_info'\<close>, with the calculator's error;
  \<^item> \<open>EscalateToHuman\<close>: \<^verbatim>\<open>'escalate_to_human'\<close>, the \<^verbatim>\<open>catch\<close> branch;
  \<^item> \<open>ResponseNotModelled\<close>: the calculator was given a non-numeric age or coverage.
\<close>

datatype premiumResponse =
    RestartCalculation
  | PresentThirdPartyQuote thirdPartyMessage jsnum breakdown
  | PresentThirdPartyOption
  | ExplainCoverageOptions
  | EncourageApplication
  | ScheduleSpecialistCall
  | ClarifyUserIntent
  | ProvideMoreInfo
  | CollectInsuranceType
  | CollectParameters collectionMessage "string list"
  | PremiumPresented premiumMessage jsnum breakdown
  | CollectAdditionalInfo string
  | EscalateToHuman
  | ResponseNotModelled

definition includesAny :: "string \<Rightarrow> string list \<Rightarrow> bool" where
  \<comment> \<open>\<^verbatim>\<open>s.includes(k1) || s.includes(k2) || ...\<close>\<close>
  "includesAny s keywords = (\<exists>k \<in> set keywords. includesStr s k)"

definition followUpQuestion :: "string \<Rightarrow> bool \<Rightarrow> premiumResponse" where
  \<comment> \<open>lines 546-634, the answers to the other follow-up questions\<close>
  "followUpQuestion lowerMessage isRespondingToThirdPartyOffer =
     (if includesAny lowerMessage [''third party'', ''3rd party''] then ExplainCoverageOptions
      else if includesAny lowerMessage [''comprehensive'', ''comp''] then EncourageApplication
      else if includesAny lowerMessage
                [''apply'', ''proceed'', ''continue'', ''start application'', ''get started'']
        then ScheduleSpecialistCall
      else if (lowerMessage = ''yes'' \<or> lowerMessage = ''ok'' \<or> lowerMessage = ''sure'')
              \<and> \<not> isRespondingToThirdPartyOffer
        then ClarifyUserIntent
      else ProvideMoreInfo)"

definition handlePremiumFollowUp ::
  "premiumCalculationService \<Rightarrow> string \<Rightarrow> conversationMessage list \<Rightarrow> params \<Rightarrow>
     premiumResponse" where
  \<comment> \<open>lines 409-635. \<open>previousParams\<close> is the result of
      \<open>extractParametersFromHistory(conversationHistory)\<close>. The cedi sign is no code unit of
      the model's strings, so the test \<^verbatim>\<open>includes('GH[cedi]')\<close> of line 421 is false here.\<close>
  "handlePremiumFollowUp svc userMessage conversationHistory previousParams =
     (let recentMessages = lastN 6 conversationHistory;
          lastPremiumResponse =
            find (\<lambda>msg. includesStr (content msg) ''Premium'')
              (filter (\<lambda>msg. role msg = Assistant) recentMessages)
      in if lastPremiumResponse = None then RestartCalculation
         else
           (let lowerMessage = toLowerCase userMessage;
                isThirdPartyRequest =
                  (includesAny lowerMessage [''third party'', ''3rd party'', ''third-party'']
                   \<and> includesAny lowerMessage
                        [''quote'', ''calculate'', ''give me'', ''show me'', ''instead'', ''rate'']);
                thirdPartyParams = previousParams(''coverageType'' \<mapsto> PStr ''third_party'');
                assistantMessages = filter (\<lambda>msg. role msg = Assistant) conversationHistory;
                isRespondingToThirdPartyOffer =
                  (assistantMessages \<noteq> []
                   \<and> includesStr (toLowerCase (content (last assistantMessages)))
                         ''calculate the third-party rate instead'')
            in if isThirdPartyRequest then
                 (case calculatePremium svc ''auto'' thirdPartyParams of
                    Success amount bd \<Rightarrow>
                      PresentThirdPartyQuote (thirdPartyQuoteMessage True amount) amount bd
                  | Failure e \<Rightarrow> PresentThirdPartyOption
                  | NonNumericInput \<Rightarrow> ResponseNotModelled)
               else if isRespondingToThirdPartyOffer
                       \<and> includesAny lowerMessage [''yes'', ''ok'', ''sure''] then
                 (case calculatePremium svc ''auto'' thirdPartyParams of
                    Success amount bd \<Rightarrow>
                      PresentThirdPartyQuote (thirdPartyQuoteMessage False amount) amount bd
                  | Failure e \<Rightarrow> followUpQuestion lowerMessage isRespondingToThirdPartyOffer
                  | NonNumericInput \<Rightarrow> ResponseNotModelled)
               else followUpQuestion lowerMessage isRespondingToThirdPartyOffer))"

definition premiumCalculationResponse ::
  "premiumCalculationService \<Rightarrow> string \<Rightarrow> params \<Rightarrow> premiumResponse" where
  \<comment> \<open>lines 341-392, once the insurance type is known\<close>
  "premiumCalculationResponse svc insuranceType allParams =
     (let requiredParams = getRequiredParametersForType insuranceType;
          missingParams = filter (\<lambda>param. \<not> truthy (allParams param)) requiredParams
      in if length missingParams > 0 then
           CollectParameters
             (generateParameterCollectionMessage insuranceType missingParams allParams)
             missingParams
         else
           (case calculatePremium svc insuranceType allParams of
              Success amount bd \<Rightarrow>
                PremiumPresented
                  (generatePremiumResponseMessage amount bd insuranceType allParams)
                  amount bd
            | Failure e \<Rightarrow> CollectAdditionalInfo e
            | NonNumericInput \<Rightarrow> ResponseNotModelled))"

definition handlePremiumCalculation ::
  "premiumCalculationService \<Rightarrow> bool \<Rightarrow> string \<Rightarrow> conversationMessage list \<Rightarrow> params \<Rightarrow>
     params \<Rightarrow> premiumResponse" where
  \<comment> \<open>lines 301-404. \<open>isFollowUp\<close> is the result of \<open>isFollowUpToPremiumCalculation\<close>,
      \<open>conversationHistory\<close> the history of the user, \<open>calculationParams\<close> the result of
      \<open>extractPremiumParameters(userMessage)\<close> and \<open>additionalParams\<close> that of
      \<open>extractParametersFromHistory(conversationHistory)\<close>, which the follow-up handler
      computes again from the same history.
      An \<^verbatim>\<open>insuranceType\<close> parameter that is not a string has no \<^verbatim>\<open>toLowerCase\<close>: the call
      throws and the \<^verbatim>\<open>catch\<close> branch answers.\<close>
  "handlePremiumCalculation svc isFollowUp userMessage conversationHistory calculationParams
       additionalParams =
     (if isFollowUp then
        handlePremiumFollowUp svc userMessage conversationHistory additionalParams
      else
        (let allParams = spread calculationParams additionalParams in
         case detectInsuranceType userMessage of
           Some insuranceType \<Rightarrow> premiumCalculationResponse svc insuranceType allParams
         | None \<Rightarrow>
             (if \<not> truthy (allParams ''insuranceType'') then CollectInsuranceType
              else
                (case allParams ''insuranceType'' of
                   Some (PStr insuranceType) \<Rightarrow>
                     premiumCalculationResponse svc insuranceType allParams
                 | _ \<Rightarrow> EscalateToHuman))))"

text \<open>
  A calculation service for the concrete runs below: it answers every auto request with
  the quote of the source's example texts (14688 a year) and every health request with
  2400. Its multipliers 0.75 and 1.5 are doubles.
\<close>

definition sampleService :: premiumCalculationService where
  "sampleService =
     \<lparr>calculateAutoPremium =
        (\<lambda>i. Some \<lparr>premium = Fin 14688,
                     breakdown = [''basePremium'' \<mapsto> Fin 12000, ''ageMultiplier'' \<mapsto> Fin (3/4),
                                  ''locationMultiplier'' \<mapsto> Fin (3/2)]\<rparr>),
      calculateHealthPremium =
        (\<lambda>i. Some \<lparr>premium = Fin 2400, breakdown = [''basePremium'' \<mapsto> Fin 2400]\<rparr>)\<rparr>"

definition onlyDefaults :: params where
  \<comment> \<open>what both extractors return for a text that names no age, no value, no city and no
      coverage type: the default city and the default coverage type\<close>
  "onlyDefaults = [''location'' \<mapsto> PStr ''accra'', ''coverageType'' \<mapsto> PStr ''comprehensive'']"


definition sampleLeadData :: leadData where
  "sampleLeadData =
     \<lparr>data_name = Some ''Ama'', data_email = Some ''ama@example.com'',
      data_phone = Some ''233201234567'', data_source = Some ''web_form'',
      data_interests = Some [''auto''], data_urgencyLevel = Some ''high''\<rparr>"


definition sampleAutoParams :: params where
  \<comment> \<open>the parameters of the source's example texts: a vehicle worth 400000, age 41, Accra\<close>
  "sampleAutoParams =
     [''vehicleValue'' \<mapsto> PNum (Fin 400000), ''age'' \<mapsto> PNum (Fin 41),
      ''location'' \<mapsto> PStr ''accra'']"

definition sampleHistory :: "conversationMessage list" where
  \<comment> \<open>a request for a quote and the answer that presented it\<close>
  "sampleHistory =
     [\<lparr>role = User, content = ''how much for car insurance'', timestamp = 1\<rparr>,
      \<lparr>role = Assistant, content = ''Annual Premium: 14,688 - Monthly Payment: 1,224'',
       timestamp = 2\<rparr>]"

section \<open>Age extraction\<close>

text \<open>
  The age patterns are JavaScript regular expressions with the flag \<^verbatim>\<open>i\<close>, applied with
  \<^verbatim>\<open>message.match(pattern)\<close>: the match is the one at the leftmost position at which the
  pattern can match, found by backtracking. Each pattern is modelled by the function that
  tries it at one position, and \<open>regexSearch\<close> tries the positions from left to right.

  \<^item> \<^verbatim>\<open>\d\<close> is a digit \<open>0\<close> to \<open>9\<close>; \<^verbatim>\<open>\s\<close> is white space (tab, line feed, vertical tab, form
    feed, carriage return, space, no-break space); \<^verbatim>\<open>\w\<close> is a letter, a digit or \<open>_\<close>.
  \<^item> \<^verbatim>\<open>(\d{1,2})\<close> is greedy: two digits are tried first, then one.
  \<^item> \<^verbatim>\<open>\s*\<close> takes all the white space there is; giving some of it back never helps, since
    what follows \<^verbatim>\<open>\s*\<close> in these patterns is never white space.
  \<^item> \<^verbatim>\<open>\b\<close> in front of a letter or a digit holds at the start of the text and after a
    character that is not \<^verbatim>\<open>\w\<close>.
  \<^item> A literal matches without regard to the case of the letters \<open>A\<close> to \<open>Z\<close>.
\<close>

definition isDigit :: "char \<Rightarrow> bool" where
  "isDigit c = (let n = (of_char c :: nat) in 48 \<le> n \<and> n \<le> 57)"

definition isSpace :: "char \<Rightarrow> bool" where
  "isSpace c = (let n = (of_char c :: nat) in (9 \<le> n \<and> n \<le> 13) \<or> n = 32 \<or> n = 160)"

definition isWordChar :: "char \<Rightarrow> bool" where
  "isWordChar c =
     (let n = (of_char c :: nat) in
      (48 \<le> n \<and> n \<le> 57) \<or> (65 \<le> n \<and> n \<le> 90) \<or> (97 \<le> n \<and> n \<le> 122) \<or> n = 95)"

definition asciiLower :: "char \<Rightarrow> char" where
  "asciiLower c =
     (let n = (of_char c :: nat) in if 65 \<le> n \<and> n \<le> 90 then char_of (n + 32) else c)"

fun startsWithCI :: "string \<Rightarrow> string \<Rightarrow> bool" where
  \<comment> \<open>\<open>startsWithCI lit s\<close>: the literal \<open>lit\<close>, written in small letters, matches at the
      start of \<open>s\<close>\<close>
  "startsWithCI [] s = True"
| "startsWithCI (p # ps) [] = False"
| "startsWithCI (p # ps) (c # cs) = (asciiLower c = p \<and> startsWithCI ps cs)"

definition skipSpaces :: "string \<Rightarrow> string" where
  "skipSpaces s = dropWhile isSpace s"

fun digitCaptures :: "string \<Rightarrow> string list" where
  \<comment> \<open>the candidates of \<^verbatim>\<open>(\d{1,2})\<close> at the start of a text, in the order of backtracking\<close>
  "digitCaptures (c # d # cs) =
     (if isDigit c then (if isDigit d then [[c, d], [c]] else [[c]]) else [])"
| "digitCaptures [c] = (if isDigit c then [[c]] else [])"
| "digitCaptures [] = []"

fun firstSome :: "('a \<Rightarrow> 'b option) \<Rightarrow> 'a list \<Rightarrow> 'b option" where
  \<comment> \<open>the first alternative that succeeds\<close>
  "firstSome f [] = None"
| "firstSome f (x # xs) = (case f x of Some y \<Rightarrow> Some y | None \<Rightarrow> firstSome f xs)"

fun regexSearchFrom :: "(bool \<Rightarrow> string \<Rightarrow> 'a option) \<Rightarrow> bool \<Rightarrow> string \<Rightarrow> 'a option" where
  \<comment> \<open>the flag says whether \<^verbatim>\<open>\b\<close> in front of a word character holds at this position\<close>
  "regexSearchFrom pat wb [] = pat wb []"
| "regexSearchFrom pat wb (c # cs) =
     (case pat wb (c # cs) of
        Some r \<Rightarrow> Some r
      | None \<Rightarrow> regexSearchFrom pat (\<not> isWordChar c) cs)"

definition regexSearch :: "(bool \<Rightarrow> string \<Rightarrow> 'a option) \<Rightarrow> string \<Rightarrow> 'a option" where
  "regexSearch pat s = regexSearchFrom pat True s"

definition digitsAfter :: "string \<Rightarrow> string \<Rightarrow> string option" where
  \<comment> \<open>\<^verbatim>\<open>lit\s*(\d{1,2})\<close> at one position: the capture\<close>
  "digitsAfter lit s =
     (if startsWithCI lit s then
        (case digitCaptures (skipSpaces (drop (length lit) s)) of
           d # _ \<Rightarrow> Some d
         | [] \<Rightarrow> None)
      else None)"

definition agePattern1 :: "bool \<Rightarrow> string \<Rightarrow> string option" where
  \<comment> \<open>\<^verbatim>\<open>/(?:age|years old|i am|i'm)\s*(\d{1,2})/i\<close>\<close>
  "agePattern1 wb s =
     firstSome (\<lambda>lit. digitsAfter lit s) [''age'', ''years old'', ''i am'', ''i'' @ [CHR 39] @ ''m'']"

definition agePattern2 :: "bool \<Rightarrow> string \<Rightarrow> string option" where
  \<comment> \<open>\<^verbatim>\<open>/(\d{1,2})\s*(?:years old|y|age)/i\<close>\<close>
  "agePattern2 wb s =
     firstSome
       (\<lambda>d. let rest = skipSpaces (drop (length d) s) in
             if startsWithCI ''years old'' rest \<or> startsWithCI ''y'' rest
                \<or> startsWithCI ''age'' rest
             then Some d else None)
       (digitCaptures s)"

definition agePattern3 :: "bool \<Rightarrow> string \<Rightarrow> string option" where
  \<comment> \<open>\<^verbatim>\<open>/\bi am\s*(\d{1,2})/i\<close>\<close>
  "agePattern3 wb s = (if wb then digitsAfter ''i am'' s else None)"

definition agePattern4 :: "bool \<Rightarrow> string \<Rightarrow> string option" where
  \<comment> \<open>\<^verbatim>\<open>/\b(\d{1,2})\s*,?\s*i\s*will/i\<close>; the optional comma is taken first, then left\<close>
  "agePattern4 wb s =
     (if wb then
        firstSome
          (\<lambda>d. let rest = skipSpaces (drop (length d) s) in
                firstSome
                  (\<lambda>afterComma.
                     let r1 = skipSpaces afterComma in
                     if startsWithCI ''i'' r1 \<and> startsWithCI ''will'' (skipSpaces (drop 1 r1))
                     then Some d else None)
                  ((case rest of c # cs \<Rightarrow> if c = CHR '','' then [cs] else [] | [] \<Rightarrow> [])
                   @ [rest]))
          (digitCaptures s)
      else None)"

definition digitValue :: "char \<Rightarrow> nat" where
  "digitValue c = of_char c - 48"

definition parseInt :: "string \<Rightarrow> nat" where
  \<comment> \<open>\<^verbatim>\<open>parseInt\<close> of a text of one or two digits\<close>
  "parseInt ds = foldl (\<lambda>n c. 10 * n + digitValue c) 0 ds"

definition extractAge :: "string \<Rightarrow> nat option" where
  \<comment> \<open>lines 1168-1185 of \<open>extractPremiumParameters\<close>: the value of \<^verbatim>\<open>params.age\<close>, \<open>None\<close> when
      the property is not set. The loop goes to the next pattern when a pattern does not
      match or its capture is out of range.\<close>
  "extractAge message =
     firstSome
       (\<lambda>pattern.
          case regexSearch pattern message of
            Some ageMatch \<Rightarrow>
              (let age = parseInt ageMatch in
               if age \<ge> 16 \<and> age \<le> 100 then Some age else None)
          | None \<Rightarrow> None)
       [agePattern1, agePattern2, agePattern3, agePattern4]"

definition historyAgePattern1 :: "bool \<Rightarrow> string \<Rightarrow> string option" where
  \<comment> \<open>\<^verbatim>\<open>/(?:i am|age|years old)\s*(\d{1,2})/i\<close>\<close>
  "historyAgePattern1 wb s =
     firstSome (\<lambda>lit. digitsAfter lit s) [''i am'', ''age'', ''years old'']"

definition historyAgePattern3 :: "bool \<Rightarrow> string \<Rightarrow> string option" where
  \<comment> \<open>\<^verbatim>\<open>/(\d{1,2})\s*(?:and|,)/i\<close>\<close>
  "historyAgePattern3 wb s =
     firstSome
       (\<lambda>d. let rest = skipSpaces (drop (length d) s) in
             if startsWithCI ''and'' rest \<or> startsWithCI '','' rest then Some d else None)
       (digitCaptures s)"

fun joinWith :: "string \<Rightarrow> string list \<Rightarrow> string" where
  \<comment> \<open>\<^verbatim>\<open>xs.join(sep)\<close>\<close>
  "joinWith sep [] = []"
| "joinWith sep [x] = x"
| "joinWith sep (x # y # ys) = x @ sep @ joinWith sep (y # ys)"

definition extractAgeFromHistory :: "conversationMessage list \<Rightarrow> nat option" where
  \<comment> \<open>lines 1244 and 1256-1265 of \<open>extractParametersFromHistory\<close>: the first pattern that
      matches decides, and its capture is dropped when it is out of range\<close>
  "extractAgeFromHistory history =
     (let allContent = toLowerCase (joinWith '' '' (map content history)) in
      case firstSome (\<lambda>pattern. regexSearch pattern allContent)
             [historyAgePattern1, agePattern2, historyAgePattern3] of
        Some ageMatches \<Rightarrow>
          (let age = parseInt ageMatches in
           if age \<ge> 16 \<and> age \<le> 100 then Some age else None)
      | None \<Rightarrow> None)"

section \<open>Processing a message\<close>

text \<open>
  \<open>processMessage\<close> (lines 112-163 of the first \<^verbatim>\<open>AIService\<close> class) records the user
  message, then answers on one of three paths. What the collaborators do is an input of
  the model:
  \<^item> \<open>PremiumRequest m\<close>: the message is a premium request or a follow-up to a quote, and
    \<open>handlePremiumCalculation\<close> answers with the text \<open>m\<close>. That method catches every
    exception and does not touch the history.
  \<^item> \<open>Conversation enhanced legacy\<close>: every other message. \<open>enhanced\<close> is \<open>None\<close> when the
    enhanced services are not loaded, and otherwise says how \<open>processWithEnhancedRAG\<close> goes;
    \<open>legacy\<close> says how \<open>processWithLegacyRAG\<close> goes when it runs.
  The clock value of the call is an argument.
\<close>

datatype enhancedOutcome =
    EnhancedFails
      \<comment> \<open>\<^verbatim>\<open>processMessageWithEnhancedRAG\<close> throws; the method returns \<^verbatim>\<open>null\<close>\<close>
  | EnhancedFailsLate string
      \<comment> \<open>it answered with this text, and a later step of the method threw\<close>
  | EnhancedAnswers string

datatype legacyOutcome =
    LegacyFails
      \<comment> \<open>a step before the history update throws; the method rethrows\<close>
  | LegacyFailsLate string
      \<comment> \<open>the reply was generated and recorded, and a later step threw\<close>
  | LegacyAnswers string

datatype routing =
    PremiumRequest string
  | Conversation "enhancedOutcome option" legacyOutcome

definition fallbackResponse :: string where
  \<comment> \<open>the apology of \<open>handleError\<close> (lines 1787-1793), its first line without the emoji\<close>
  "fallbackResponse = ''I apologize, but I'' @ [CHR 39] @ ''m having a technical moment!''"

definition processWithEnhancedRAG ::
  "conversationStore \<Rightarrow> string \<Rightarrow> string \<Rightarrow> enhancedOutcome \<Rightarrow> nat
     \<Rightarrow> conversationStore \<times> string option" where
  \<comment> \<open>lines 168-239: the history update of line 197 follows the answer of the service; the
      \<^verbatim>\<open>catch\<close> returns \<^verbatim>\<open>null\<close>\<close>
  "processWithEnhancedRAG st userId userMessage outcome now =
     (case outcome of
        EnhancedFails \<Rightarrow> (st, None)
      | EnhancedFailsLate m \<Rightarrow> (updateConversationHistory st userId userMessage m now, None)
      | EnhancedAnswers m \<Rightarrow> (updateConversationHistory st userId userMessage m now, Some m))"

definition processWithLegacyRAG ::
  "conversationStore \<Rightarrow> string \<Rightarrow> string \<Rightarrow> legacyOutcome \<Rightarrow> nat
     \<Rightarrow> conversationStore \<times> (unit + string)" where
  \<comment> \<open>lines 244-296: the history update of line 265 follows the generated reply; the
      \<^verbatim>\<open>catch\<close> rethrows (\<open>Inl\<close>)\<close>
  "processWithLegacyRAG st userId userMessage outcome now =
     (case outcome of
        LegacyFails \<Rightarrow> (st, Inl ())
      | LegacyFailsLate m \<Rightarrow> (updateConversationHistory st userId userMessage m now, Inl ())
      | LegacyAnswers m \<Rightarrow> (updateConversationHistory st userId userMessage m now, Inr m))"

definition processMessage ::
  "conversationStore \<Rightarrow> string \<Rightarrow> string \<Rightarrow> routing \<Rightarrow> nat \<Rightarrow> conversationStore \<times> string" where
  \<comment> \<open>the new store and the \<^verbatim>\<open>message\<close> of the response\<close>
  "processMessage st userId userMessage r now =
     (let st1 = updateConversationHistory st userId userMessage [] now in
      case r of
        PremiumRequest m \<Rightarrow> (updateConversationHistoryResponse st1 userId m now, m)
      | Conversation enhanced legacy \<Rightarrow>
          (case (case enhanced of
                   None \<Rightarrow> (st1, None)
                 | Some e \<Rightarrow> processWithEnhancedRAG st1 userId userMessage e now) of
             (st2, Some m) \<Rightarrow> (updateConversationHistoryResponse st2 userId m now, m)
           | (st2, None) \<Rightarrow>
               (case processWithLegacyRAG st2 userId userMessage legacy now of
                  (st3, Inr m) \<Rightarrow> (updateConversationHistoryResponse st3 userId m now, m)
                | (st3, Inl err) \<Rightarrow>
                    (updateConversationHistoryResponse st3 userId fallbackResponse now,
                     fallbackResponse))))"

section \<open>Conversation memory: the bounded window\<close>

lemma spliceFront_lastN: "spliceFront n h = lastN n h"
  by (simp add: spliceFront_def lastN_def)

lemma length_lastN: "length (lastN n xs) = min n (length xs)"
  by (simp add: lastN_def)

lemma lastN_append_lastN: "lastN n (lastN n xs @ ys) = lastN n (xs @ ys)"
proof (cases "length xs \<le> n")
  case True
  then show ?thesis by (simp add: lastN_def)
next
  case False
  then have "length xs - n + n = length xs" by simp
  then show ?thesis using False by (simp add: lastN_def add.commute)
qed

lemma getHistory_update:
  "getConversationHistory (updateConversationHistory st u m a t) v =
     (if v = u then lastN 20 (getConversationHistory st u @ pushed (Update u m a t))
      else getConversationHistory st v)"
  by (simp add: getConversationHistory_def updateConversationHistory_def Let_def
      spliceFront_lastN)

lemma getHistory_updateResponse:
  "getConversationHistory (updateConversationHistoryResponse st u a t) v =
     (if v = u then lastN 20 (getConversationHistory st u @ pushed (UpdateResponse u a t))
      else getConversationHistory st v)"
  by (simp add: getConversationHistory_def updateConversationHistoryResponse_def Let_def
      spliceFront_lastN)

lemma getHistory_applyUpdate:
  "getConversationHistory (applyUpdate st up) v =
     (if v = updateUser up then lastN 20 (getConversationHistory st v @ pushed up)
      else getConversationHistory st v)"
  by (cases up) (simp_all add: getHistory_update getHistory_updateResponse)

text \<open>
  The window after a run of updates: if the stored history is the tail of some list \<open>H\<close>,
  it is afterwards the tail of \<open>H\<close> followed by everything pushed for that user.
\<close>

lemma getHistory_runUpdates:
  "getConversationHistory st v = lastN 20 H \<Longrightarrow>
   getConversationHistory (runUpdates st ups) v = lastN 20 (H @ pushedFor v ups)"
proof (induction ups arbitrary: st H)
  case Nil
  then show ?case by (simp add: runUpdates_def pushedFor_def)
next
  case (Cons up ups)
  have step: "getConversationHistory (applyUpdate st up) v = lastN 20 (H @ pushedFor v [up])"
  proof (cases "updateUser up = v")
    case True
    then show ?thesis
      using Cons.prems lastN_append_lastN [of 20 H "pushed up"]
      by (simp add: getHistory_applyUpdate pushedFor_def)
  next
    case False
    then show ?thesis
      using Cons.prems by (auto simp add: getHistory_applyUpdate pushedFor_def)
  qed
  have "getConversationHistory (runUpdates st (up # ups)) v =
        getConversationHistory (runUpdates (applyUpdate st up) ups) v"
    by (simp add: runUpdates_def)
  also have "\<dots> = lastN 20 ((H @ pushedFor v [up]) @ pushedFor v ups)"
    by (rule Cons.IH [OF step])
  also have "\<dots> = lastN 20 (H @ pushedFor v (up # ups))"
    by (simp add: pushedFor_def)
  finally show ?case .
qed

lemma getHistory_updateLegacy:
  "getConversationHistory (updateConversationHistoryLegacy st u m a t) v =
     (if v = u then lastN 10 (getConversationHistory st u @ pushedLegacy (u, m, a, t))
      else getConversationHistory st v)"
  by (simp add: getConversationHistory_def updateConversationHistoryLegacy_def Let_def
      spliceFront_lastN)

lemma getHistory_runLegacyUpdates:
  "getConversationHistory st v = lastN 10 H \<Longrightarrow>
   getConversationHistory (runLegacyUpdates st ups) v = lastN 10 (H @ pushedForLegacy v ups)"
proof (induction ups arbitrary: st H)
  case Nil
  then show ?case by (simp add: runLegacyUpdates_def pushedForLegacy_def)
next
  case (Cons up ups)
  obtain u m a t where up: "up = (u, m, a, t)" by (cases up) auto
  have step: "getConversationHistory (applyLegacyUpdate st up) v =
          lastN 10 (H @ pushedForLegacy v [up])"
  proof (cases "u = v")
    case True
    then show ?thesis
      using Cons.prems lastN_append_lastN [of 10 H "pushedLegacy (u, m, a, t)"]
      by (simp add: up getHistory_updateLegacy pushedForLegacy_def)
  next
    case False
    then show ?thesis
      using Cons.prems by (auto simp add: up getHistory_updateLegacy pushedForLegacy_def)
  qed
  have "getConversationHistory (runLegacyUpdates st (up # ups)) v =
        getConversationHistory (runLegacyUpdates (applyLegacyUpdate st up) ups) v"
    by (simp add: runLegacyUpdates_def)
  also have "\<dots> = lastN 10 ((H @ pushedForLegacy v [up]) @ pushedForLegacy v ups)"
    by (rule Cons.IH [OF step])
  also have "\<dots> = lastN 10 (H @ pushedForLegacy v (up # ups))"
    by (simp add: pushedForLegacy_def)
  finally show ?case .
qed

text \<open>
  Claim C3. For every user id and every sequence of history updates starting from the empty
  store, the stored history of that user has at most 20 entries (10 in the legacy class) and
  is exactly the most recent 20 (resp. 10) of the messages pushed for that user, in the
  order in which they were pushed. One update from any store whatever, also one holding a
  longer list, leaves at most 20 (resp. 10) entries for the updated user.
\<close>

theorem history_window_fifo:
  "(let h = getConversationHistory (runUpdates Map.empty ups) userId in
      length h \<le> 20 \<and> h = lastN 20 (pushedFor userId ups))
   \<and> (let h = getConversationHistory (runLegacyUpdates Map.empty lups) userId in
      length h \<le> 10 \<and> h = lastN 10 (pushedForLegacy userId lups))
   \<and> length (getConversationHistory (applyUpdate st up) (updateUser up)) \<le> 20
   \<and> length (getConversationHistory (applyLegacyUpdate st lup) (fst lup)) \<le> 10"
proof -
  have e: "getConversationHistory Map.empty userId = lastN n []" for n
    by (simp add: getConversationHistory_def lastN_def)
  have a: "getConversationHistory (runUpdates Map.empty ups) userId =
           lastN 20 (pushedFor userId ups)"
    using getHistory_runUpdates [OF e, of ups] by simp
  have b: "getConversationHistory (runLegacyUpdates Map.empty lups) userId =
           lastN 10 (pushedForLegacy userId lups)"
    using getHistory_runLegacyUpdates [OF e, of lups] by simp
  have c: "length (getConversationHistory (applyUpdate st up) (updateUser up)) \<le> 20"
    by (simp add: getHistory_applyUpdate length_lastN)
  obtain u m a t where lup: "lup = (u, m, a, t)" by (cases lup) auto
  have d: "length (getConversationHistory (applyLegacyUpdate st lup) (fst lup)) \<le> 10"
    by (simp add: lup getHistory_updateLegacy length_lastN)
  show ?thesis
    unfolding Let_def a b using c d by (simp add: length_lastN)
qed

theorem history_window_fifo_witness:
  "length (getConversationHistory
      (runUpdates Map.empty (replicate 11 (Update ''u1'' ''hello'' ''Hi there'' 7))) ''u1'') \<le> 20
   \<and> getConversationHistory
      (runUpdates Map.empty (replicate 11 (Update ''u1'' ''hello'' ''Hi there'' 7))) ''u1'' =
     lastN 20 (pushedFor ''u1'' (replicate 11 (Update ''u1'' ''hello'' ''Hi there'' 7)))
   \<and> length (pushedFor ''u1'' (replicate 11 (Update ''u1'' ''hello'' ''Hi there'' 7))) = 22"
proof -
  have "length (pushedFor ''u1'' (replicate 11 (Update ''u1'' ''hello'' ''Hi there'' 7))) = 22"
    by code_simp
  then show ?thesis
    using history_window_fifo [of "replicate 11 (Update ''u1'' ''hello'' ''Hi there'' 7)" "''u1''"
        "[]" Map.empty "Update ''u1'' ''hello'' ''Hi there'' 7" "(''u1'', ''hello'', ''Hi there'', 7)"]
    unfolding Let_def by blast
qed

section \<open>Numbers: the exponent and the exact doubles\<close>

lemma bitLength_0: "n \<le> 0 \<Longrightarrow> bitLength n = 0"
  by (simp add: bitLength.simps)

lemma bitLength_bounds:
  "0 < n \<Longrightarrow> 0 < bitLength n \<and> 2 ^ nat (bitLength n - 1) \<le> n \<and> n < 2 ^ nat (bitLength n)"
proof (induction n rule: bitLength.induct)
  case (1 n)
  have bl: "bitLength n = 1 + bitLength (n div 2)"
    using 1(2) by (subst bitLength.simps) simp
  show ?case
  proof (cases "n div 2 = 0")
    case True
    then have "n = 1" using 1(2) by presburger
    then show ?thesis using bl by (simp add: bitLength_0)
  next
    case False
    then have pos: "0 < n div 2" using 1(2) by presburger
    have ih: "0 < bitLength (n div 2) \<and> 2 ^ nat (bitLength (n div 2) - 1) \<le> n div 2
        \<and> n div 2 < 2 ^ nat (bitLength (n div 2))"
      using 1(1) 1(2) pos by simp
    define b where "b = bitLength (n div 2)"
    have b: "0 < b" "2 ^ nat (b - 1) \<le> n div 2" "n div 2 < 2 ^ nat b"
      using ih by (simp_all add: b_def)
    have "nat b = Suc (nat (b - 1))" using b(1) by simp
    then have e: "(2::int) ^ nat b = 2 * 2 ^ nat (b - 1)"
      by (metis power_Suc)
    have lo: "2 ^ nat b \<le> n" using b(2) e by presburger
    have hi: "n < 2 * 2 ^ nat b" using b(3) by presburger
    have s: "nat (1 + b) = Suc (nat b)" using b(1) by simp
    show ?thesis
      using lo hi b(1) by (simp add: bl b_def [symmetric] s)
  qed
qed

lemma pow2_powi: "pow2 k = 2 powi k"
  unfolding pow2_def power_int_def by (simp add: power_one_over inverse_eq_divide)

lemma pow2_pos: "0 < pow2 k"
  by (simp add: pow2_powi)

lemma pow2_add: "pow2 (i + j) = pow2 i * pow2 j"
  by (simp add: pow2_powi power_int_add)

lemma pow2_diff: "pow2 (i - j) = pow2 i / pow2 j"
  by (simp add: pow2_powi power_int_diff)

lemma pow2_minus: "pow2 (- k) = 1 / pow2 k"
  by (simp add: pow2_powi power_int_minus_divide)

lemma pow2_nat: "0 \<le> k \<Longrightarrow> pow2 k = of_int (2 ^ nat k)"
  by (simp add: pow2_def)

lemma pow2_less_imp: "pow2 i < pow2 j \<Longrightarrow> i < j"
proof (rule ccontr)
  assume a: "pow2 i < pow2 j" and "\<not> i < j"
  then have "j \<le> i" by simp
  then have "(2::rat) powi j \<le> 2 powi i" by (rule power_int_increasing) simp
  then show False using a by (simp add: pow2_powi)
qed

lemma ilog2_bounds:
  assumes "0 < a"
  shows "pow2 (ilog2 a) \<le> a \<and> a < pow2 (ilog2 a + 1)"
proof (cases "1 \<le> a")
  case True
  define n where "n = \<lfloor>a\<rfloor>"
  have n: "0 < n" using True by (simp add: n_def)
  have b: "0 < bitLength n" "2 ^ nat (bitLength n - 1) \<le> n" "n < 2 ^ nat (bitLength n)"
    using bitLength_bounds [OF n] by simp_all
  have b3: "n + 1 \<le> 2 ^ nat (bitLength n)" using b(3) by linarith
  have e: "ilog2 a = bitLength n - 1" using True by (simp add: ilog2_def n_def)
  have lo: "pow2 (bitLength n - 1) \<le> a"
  proof -
    have "pow2 (bitLength n - 1) = of_int (2 ^ nat (bitLength n - 1))"
      using b(1) by (simp add: pow2_nat)
    also have "\<dots> \<le> of_int n" using b(2) by (simp only: of_int_le_iff)
    also have "\<dots> \<le> a" by (simp add: n_def)
    finally show ?thesis .
  qed
  have hi: "a < pow2 (bitLength n)"
  proof -
    have "a < of_int (n + 1)" unfolding n_def by linarith
    also have "\<dots> \<le> of_int (2 ^ nat (bitLength n))"
      using b3 by (simp only: of_int_le_iff)
    also have "\<dots> = pow2 (bitLength n)" using b(1) by (simp add: pow2_nat)
    finally show ?thesis .
  qed
  show ?thesis using lo hi by (simp add: e)
next
  case False
  define y where "y = 1 / a"
  define n where "n = \<lceil>y\<rceil> - 1"
  have y1: "1 < y" using False assms by (simp add: y_def)
  have n: "0 < n" using y1 unfolding n_def by linarith
  have b: "0 < bitLength n" "2 ^ nat (bitLength n - 1) \<le> n" "n < 2 ^ nat (bitLength n)"
    using bitLength_bounds [OF n] by simp_all
  have b3: "n + 1 \<le> 2 ^ nat (bitLength n)" using b(3) by linarith
  have e: "ilog2 a = - bitLength n" using False by (simp add: ilog2_def n_def y_def)
  have ny: "of_int n < y" "y \<le> of_int (n + 1)"
    unfolding n_def by linarith+
  have ylo: "pow2 (bitLength n - 1) < y"
  proof -
    have "pow2 (bitLength n - 1) = of_int (2 ^ nat (bitLength n - 1))"
      using b(1) by (simp add: pow2_nat)
    also have "\<dots> \<le> of_int n" using b(2) by (simp only: of_int_le_iff)
    also have "\<dots> < y" by (rule ny(1))
    finally show ?thesis .
  qed
  have yhi: "y \<le> pow2 (bitLength n)"
  proof -
    have "y \<le> of_int (n + 1)" by (rule ny(2))
    also have "\<dots> \<le> of_int (2 ^ nat (bitLength n))"
      using b3 by (simp only: of_int_le_iff)
    also have "\<dots> = pow2 (bitLength n)" using b(1) by (simp add: pow2_nat)
    finally show ?thesis .
  qed
  have a: "a = 1 / y" using assms by (simp add: y_def)
  have r: "- bitLength n + 1 = - (bitLength n - 1)" by simp
  have m: "pow2 (- bitLength n) = 1 / pow2 (bitLength n)"
    "pow2 (- bitLength n + 1) = 1 / pow2 (bitLength n - 1)"
    unfolding r by (rule pow2_minus)+
  have lo: "pow2 (- bitLength n) \<le> a"
    unfolding m a using yhi y1 pow2_pos [of "bitLength n"] by (simp add: field_simps)
  have hi: "a < pow2 (- bitLength n + 1)"
    unfolding m a using ylo y1 pow2_pos [of "bitLength n - 1"] by (simp add: field_simps)
  show ?thesis using lo hi by (simp add: e)
qed


lemma roundHalfEven_int: "roundHalfEven (of_int z) = z"
  by (simp add: roundHalfEven_def)

lemma toDouble_exact:
  assumes "n \<noteq> 0" and "\<bar>n\<bar> < 2 ^ 53" and "- 1074 \<le> t" and "t \<le> 970"
  shows "toDouble (of_int n * pow2 t) = Fin (of_int n * pow2 t)"
proof -
  define x where "x = rat_of_int n * pow2 t"
  define a where "a = \<bar>x\<bar>"
  have a: "a = of_int \<bar>n\<bar> * pow2 t"
    using pow2_pos [of t] by (simp add: a_def x_def abs_mult)
  have apos: "0 < a"
    using assms(1) pow2_pos [of t] by (simp add: a)
  have xnz: "x \<noteq> 0" using apos by (simp add: a_def)
  define e0 where "e0 = ilog2 a"
  have b: "pow2 e0 \<le> a" "a < pow2 (e0 + 1)"
    using ilog2_bounds [OF apos] by (simp_all add: e0_def)
  have "rat_of_int \<bar>n\<bar> < of_int (2 ^ 53)"
    using assms(2) by (simp only: of_int_less_iff)
  then have "a < pow2 53 * pow2 t"
    using pow2_pos [of t] by (simp add: a pow2_def)
  then have "pow2 e0 < pow2 (53 + t)"
    using b(1) by (simp add: pow2_add)
  then have e0: "e0 < 53 + t" by (rule pow2_less_imp)
  define e where "e = max e0 (- 1022)"
  have e: "e - 52 \<le> t" "e \<le> 1022"
    using e0 assms(3,4) by (simp_all add: e_def)
  define d where "d = t - (e - 52)"
  have d: "0 \<le> d" using e(1) by (simp add: d_def)
  have "a / pow2 (e - 52) = of_int \<bar>n\<bar> * pow2 d"
    by (simp add: a d_def pow2_diff [of t])
  also have "\<dots> = of_int (\<bar>n\<bar> * 2 ^ nat d)"
    using d by (simp add: pow2_nat)
  finally have q: "a / pow2 (e - 52) = of_int (\<bar>n\<bar> * 2 ^ nat d)" .
  have m: "roundHalfEven (a / pow2 (e - 52)) = \<bar>n\<bar> * 2 ^ nat d"
    unfolding q by (rule roundHalfEven_int)
  have v: "of_int (\<bar>n\<bar> * 2 ^ nat d) * pow2 (e - 52) = a"
    using q pow2_pos [of "e - 52"] by (simp add: field_simps)
  have s: "(if 0 < x then a else - a) = x"
    by (simp add: a_def)
  have "toDouble x = Fin x"
    unfolding toDouble_def Let_def a_def [symmetric] e0_def [symmetric] e_def [symmetric] m v
    using xnz e(2) s by simp
  then show ?thesis by (simp add: x_def)
qed


lemma toDouble_int:
  assumes "\<bar>n\<bar> < 2 ^ 53"
  shows "toDouble (of_int n) = Fin (of_int n)"
proof (cases "n = 0")
  case True
  then show ?thesis by (simp add: toDouble_def)
next
  case False
  then show ?thesis
    using toDouble_exact [of n 0] assms by (simp add: pow2_def)
qed

lemma toDouble_half:
  assumes "\<bar>n\<bar> < 2 ^ 53"
  shows "toDouble (of_int n / 2) = Fin (of_int n / 2)"
proof (cases "n = 0")
  case True
  then show ?thesis by (simp add: toDouble_def)
next
  case False
  then show ?thesis
    using toDouble_exact [of n "- 1"] assms by (simp add: pow2_def)
qed




lemma not_less_cases:
  "\<not> jsLess s (Fin t) \<Longrightarrow> s = NaN \<or> jsAtLeast s t"
  by (cases s) (auto simp add: jsAtLeast_def)


lemma literal_095: "literal (95/100) = 4278419646001971 / 4503599627370496"
  by code_simp

lemma toDouble_half_1: "toDouble (1/2) = Fin (1/2)"
  using toDouble_half [of 1] by simp

lemma toDouble_0: "toDouble 0 = Fin 0"
  by (simp add: toDouble_def)


section \<open>Lead scoring: thresholds, failures and ranges\<close>

lemma validate_null: "validateLeadAnalysis mc JNull = Returned leadFallback"
  by (simp add: validateLeadAnalysis_def)

lemma validate_converted:
  assumes "la \<noteq> JNull"
    and "toNumber (orJson (readProperty la ''confidence'') (JNum (1/2))) = Converted c"
    and "toNumber (orJson (readProperty la ''score'') (JNum 0)) = Converted s"
    and "sc = mathMin (Fin 10) (mathMax (Fin 0) s)"
    and "cf = mathMin (Fin 1) (mathMax (Fin 0) c)"
    and "threshold = (if mc < 2 then 8 else 13/2)"
  shows "validateLeadAnalysis mc la =
     (if jsLess sc (Fin threshold) then
        (if mc = 0 \<and> jsLess sc (Fin (17/2)) then
           Returned \<lparr>shouldCapture = JBool False, confidence = cf, score = sc,
             reason = ReasonFirstMessage (ReasonBelow sc threshold (mc < 2)),
             riskFactors = orJson (readProperty la ''riskFactors'') (JArr []),
             positiveSignals = orJson (readProperty la ''positiveSignals'') (JArr [])\<rparr>
         else
           Returned \<lparr>shouldCapture = JBool False, confidence = cf, score = sc,
             reason = ReasonBelow sc threshold (mc < 2),
             riskFactors = orJson (readProperty la ''riskFactors'') (JArr []),
             positiveSignals = orJson (readProperty la ''positiveSignals'') (JArr [])\<rparr>)
      else if mc = 0 \<and> jsLess sc (Fin (17/2)) then
        (if reasonThrows (reasonOf la) then Returned leadFallback
         else
           Returned \<lparr>shouldCapture = JBool False, confidence = cf, score = sc,
             reason = ReasonFirstMessage (reasonOf la),
             riskFactors = orJson (readProperty la ''riskFactors'') (JArr []),
             positiveSignals = orJson (readProperty la ''positiveSignals'') (JArr [])\<rparr>)
      else
        Returned \<lparr>shouldCapture = orJson (readProperty la ''shouldCapture'') (JBool False),
          confidence = cf, score = sc, reason = reasonOf la,
          riskFactors = orJson (readProperty la ''riskFactors'') (JArr []),
          positiveSignals = orJson (readProperty la ''positiveSignals'') (JArr [])\<rparr>)"
  unfolding validateLeadAnalysis_def Let_def assms(2,3) conversion.case
    assms(4) [symmetric] assms(5) [symmetric] assms(6) [symmetric]
  using assms(1) by (simp only: if_False leadAnalysisResult.simps leadAnalysisResult.update_convs
      reasonThrows.simps if_True split: if_splits) simp


lemma fallback_not_captured: "\<not> truthyJson (shouldCapture leadFallback)"
  by (simp add: leadFallback_def)

lemma orJson_truthy:
  "truthyJson (orJson x (JBool False)) \<Longrightarrow> \<exists>v. x = Some v \<and> truthyJson v"
  by (cases x) (auto simp add: orJson_def split: if_splits)

lemma validate_capture_needs:
  assumes "validateLeadAnalysis mc la = Returned r" and "truthyJson (shouldCapture r)"
  shows "(\<exists>v. readProperty la ''shouldCapture'' = Some v \<and> truthyJson v)
       \<and> (score r = NaN
           \<or> (jsAtLeast (score r) (13/2) \<and> (mc < 2 \<longrightarrow> jsAtLeast (score r) 8)
               \<and> (mc = 0 \<longrightarrow> jsAtLeast (score r) (17/2))))"
proof -
  have nn: "la \<noteq> JNull"
    using assms fallback_not_captured by (auto simp add: validate_null)
  obtain c where c: "toNumber (orJson (readProperty la ''confidence'') (JNum (1/2))) = Converted c"
    using assms nn fallback_not_captured
    by (cases "toNumber (orJson (readProperty la ''confidence'') (JNum (1/2)))")
       (auto simp add: validateLeadAnalysis_def)
  obtain s where s: "toNumber (orJson (readProperty la ''score'') (JNum 0)) = Converted s"
    using assms nn c fallback_not_captured
    by (cases "toNumber (orJson (readProperty la ''score'') (JNum 0))")
       (auto simp add: validateLeadAnalysis_def)
  define sc where "sc = mathMin (Fin 10) (mathMax (Fin 0) s)"
  define cf where "cf = mathMin (Fin 1) (mathMax (Fin 0) c)"
  define threshold :: rat where "threshold = (if mc < 2 then 8 else 13/2)"
  note v = validate_converted [OF nn c s sc_def cf_def threshold_def]
  have a: "\<not> jsLess sc (Fin threshold)"
    using assms fallback_not_captured unfolding v by (auto split: if_splits)
  have b: "\<not> (mc = 0 \<and> jsLess sc (Fin (17/2)))"
    using assms fallback_not_captured a unfolding v by (auto split: if_splits)
  have r: "r = \<lparr>shouldCapture = orJson (readProperty la ''shouldCapture'') (JBool False),
          confidence = cf, score = sc, reason = reasonOf la,
          riskFactors = orJson (readProperty la ''riskFactors'') (JArr []),
          positiveSignals = orJson (readProperty la ''positiveSignals'') (JArr [])\<rparr>"
    using assms(1) a b unfolding v by (simp split: if_splits)
  have p1: "\<exists>v. readProperty la ''shouldCapture'' = Some v \<and> truthyJson v"
    using assms(2) orJson_truthy by (simp add: r)
  have sr: "score r = sc" by (simp add: r)
  have p2: "sc = NaN \<or> (jsAtLeast sc (13/2) \<and> (mc < 2 \<longrightarrow> jsAtLeast sc 8)
               \<and> (mc = 0 \<longrightarrow> jsAtLeast sc (17/2)))"
  proof (cases "sc = NaN")
    case True
    then show ?thesis by simp
  next
    case False
    have t: "jsAtLeast sc threshold" using not_less_cases [OF a] False by simp
    have t2: "mc = 0 \<longrightarrow> jsAtLeast sc (17/2)"
      using b not_less_cases [of sc "17/2"] False by auto
    have t3: "jsAtLeast sc (13/2)"
      using t by (cases sc) (auto simp add: jsAtLeast_def threshold_def split: if_splits)
    show ?thesis using t t2 t3 by (auto simp add: threshold_def split: if_splits)
  qed
  show ?thesis using p1 p2 by (simp add: sr)
qed


lemma scorers_failure:
  assumes "\<not> promptThrows analysis"
  shows "shouldCaptureLead userMessage analysis history (Inl err) = Returned leadFallback"
    and "analyzeLeadCaptureIntent userMessage analysis history messageCount (Inl err) =
           Returned leadFallback"
  using assms by (simp_all add: shouldCaptureLead_def analyzeLeadCaptureIntent_def)

lemma scorers_validate:
  assumes "\<not> promptThrows analysis"
  shows "shouldCaptureLead userMessage analysis history (Inr la) =
           validateLeadAnalysis (length history div 2) la"
    and "analyzeLeadCaptureIntent userMessage analysis history messageCount (Inr la) =
           validateLeadAnalysis messageCount la"
  using assms by (simp_all add: shouldCaptureLead_def analyzeLeadCaptureIntent_def)



lemma plain_analysis: "\<not> promptThrows (JObj [])"
  by (simp add: promptThrows_def templateThrows_def joinThrows_def)

lemma nan_reply_string:
  "validateLeadAnalysis 0 (JObj [(''shouldCapture'', JBool True), (''score'', JStr ''abc'')]) =
     Returned \<lparr>shouldCapture = JBool True, confidence = Fin (1/2), score = NaN,
       reason = ReasonCompleted, riskFactors = JArr [], positiveSignals = JArr []\<rparr>"
  by code_simp

lemma nan_reply_object:
  "validateLeadAnalysis 0 (JObj [(''shouldCapture'', JBool True), (''score'', JObj [])]) =
     Returned \<lparr>shouldCapture = JBool True, confidence = Fin (1/2), score = NaN,
       reason = ReasonCompleted, riskFactors = JArr [], positiveSignals = JArr []\<rparr>"
  by code_simp

text \<open>
  Claim C1. The claim: a scorer captures only with a score of at least 8.5 at
  conversation depth 0, at least 8.0 below depth 2 and at least 6.5 from depth 2 on.
  The code compares with \<^verbatim>\<open>result.score < threshold\<close>, and both tests are false for \<^verbatim>\<open>NaN\<close>:
  when the reply says \<^verbatim>\<open>{"shouldCapture": true, "score": "abc"}\<close> (or gives an object as the
  score), on the first message of a conversation, \<^verbatim>\<open>Math.max(0.0, "abc")\<close> is \<^verbatim>\<open>NaN\<close>, no test
  clears the flag, and both scorers return a capture whose score is \<^verbatim>\<open>NaN\<close>. For every
  score that is not \<^verbatim>\<open>NaN\<close> the thresholds hold (lemma \<open>validate_capture_needs\<close>).
\<close>

theorem lead_capture_nan_score:
  "shouldCaptureLead ''I need car insurance'' (JObj []) []
     (Inr (JObj [(''shouldCapture'', JBool True), (''score'', JStr ''abc'')])) =
     Returned \<lparr>shouldCapture = JBool True, confidence = Fin (1/2), score = NaN,
       reason = ReasonCompleted, riskFactors = JArr [], positiveSignals = JArr []\<rparr>
   \<and> analyzeLeadCaptureIntent ''I need car insurance'' (JObj []) [] 0
     (Inr (JObj [(''shouldCapture'', JBool True), (''score'', JStr ''abc'')])) =
     Returned \<lparr>shouldCapture = JBool True, confidence = Fin (1/2), score = NaN,
       reason = ReasonCompleted, riskFactors = JArr [], positiveSignals = JArr []\<rparr>
   \<and> shouldCaptureLead ''I need car insurance'' (JObj []) []
     (Inr (JObj [(''shouldCapture'', JBool True), (''score'', JObj [])])) =
     Returned \<lparr>shouldCapture = JBool True, confidence = Fin (1/2), score = NaN,
       reason = ReasonCompleted, riskFactors = JArr [], positiveSignals = JArr []\<rparr>
   \<and> \<not> jsAtLeast NaN (17/2)"
  by (simp add: scorers_validate plain_analysis nan_reply_string nan_reply_object jsAtLeast_def)



section \<open>Lead service: score ranges\<close>














lemma sample_lead_score: "calculateLeadScore sampleLeadData = Fin 100"
  by code_simp







section \<open>Premium calculation: the branches of the calculator\<close>

lemma lower_auto: "toLowerCase ''auto'' = ''auto''"
  by (simp add: toLowerCase_def toLowerChar_def Let_def)

lemma lower_health: "toLowerCase ''health'' = ''health''"
  by (simp add: toLowerCase_def toLowerChar_def Let_def)

lemma lower_life: "toLowerCase ''life'' = ''life''"
  by (simp add: toLowerCase_def toLowerChar_def Let_def)

lemma lower_business: "toLowerCase ''business'' = ''business''"
  by (simp add: toLowerCase_def toLowerChar_def Let_def)

lemma calc_auto:
  "calculatePremium svc ''auto'' p =
     (if hasRequiredAutoParams p then
        (case calculateAutoPremium svc (autoInput p) of
           Some r \<Rightarrow> Success (premium r) (breakdown r)
         | None \<Rightarrow> Failure invalidParameters)
      else Failure missingParameters)"
  unfolding calculatePremium_def lower_auto Let_def by simp

lemma calc_health:
  "calculatePremium svc ''health'' p =
     (if hasRequiredHealthParams p then
        (case calculateHealthPremium svc (healthInput p) of
           Some r \<Rightarrow> Success (premium r) (breakdown r)
         | None \<Rightarrow> Failure invalidParameters)
      else Failure missingParameters)"
  unfolding calculatePremium_def lower_health Let_def by simp

lemma calc_business: "calculatePremium svc ''business'' p = Failure missingParameters"
  unfolding calculatePremium_def lower_business Let_def by simp

lemma calc_life:
  "calculatePremium svc ''life'' p =
     (case (jsOr (p ''age'') (Some (PNum (Fin 30))),
            jsOr (jsOr (p ''coverage'') (p ''coverageAmount'')) (Some (PNum (Fin 500000)))) of
        (Some (PNum a), Some (PNum coverage)) \<Rightarrow>
          Success (mathRound (jsTimes (jsDividedBy coverage 1000) (ratePerThousand a)))
            [''baseCoverage'' \<mapsto> coverage,
             ''ageRate'' \<mapsto> Fin (ratePerThousand a),
             ''annualPremium'' \<mapsto>
               mathRound (jsTimes (jsDividedBy coverage 1000) (ratePerThousand a)),
             ''monthlyPremium'' \<mapsto>
               mathRound (jsDividedBy (jsTimes (jsDividedBy coverage 1000) (ratePerThousand a))
                 12)]
      | _ \<Rightarrow> NonNumericInput)"
  unfolding calculatePremium_def lower_life Let_def by simp

lemma calc_life_numbers:
  assumes "jsOr (p ''age'') (Some (PNum (Fin 30))) = Some (PNum a)"
    and "jsOr (jsOr (p ''coverage'') (p ''coverageAmount'')) (Some (PNum (Fin 500000))) =
           Some (PNum coverage)"
  shows "calculatePremium svc ''life'' p =
          Success (mathRound (jsTimes (jsDividedBy coverage 1000) (ratePerThousand a)))
            [''baseCoverage'' \<mapsto> coverage,
             ''ageRate'' \<mapsto> Fin (ratePerThousand a),
             ''annualPremium'' \<mapsto>
               mathRound (jsTimes (jsDividedBy coverage 1000) (ratePerThousand a)),
             ''monthlyPremium'' \<mapsto>
               mathRound (jsDividedBy (jsTimes (jsDividedBy coverage 1000) (ratePerThousand a))
                 12)]"
  unfolding calc_life assms by simp

lemma calc_life_not_failure: "calculatePremium svc ''life'' p \<noteq> Failure e"
  unfolding calc_life
  by (simp split: prod.splits option.splits paramValue.splits)

lemma ratePerThousand_cases:
  "ratePerThousand a = 7/2 \<or> ratePerThousand a = 17/2 \<or> ratePerThousand a = 37/2
   \<or> ratePerThousand a = 75/2"
  by (simp add: ratePerThousand_def)

lemma ratePerThousand_Fin:
  "ratePerThousand (Fin x) =
     (if x < 35 then 7/2 else if x < 45 then 17/2 else if x < 55 then 37/2 else 75/2)"
  by (simp add: ratePerThousand_def)

lemma whole_thousands:
  assumes "0 < k" and "k < 2 ^ 46"
  shows "jsTimes (jsDividedBy (Fin (of_int k * 1000)) 1000) (ratePerThousand a) =
           Fin (of_int k * ratePerThousand a)"
proof -
  have k53: "\<bar>k\<bar> < 2 ^ 53" using assms by simp
  have d: "jsDividedBy (Fin (of_int k * 1000)) 1000 = Fin (of_int k)"
    using toDouble_int [OF k53] by simp
  obtain n :: int where n: "ratePerThousand a = of_int n / 2" "0 < n" "n \<le> 75"
  proof -
    have "ratePerThousand a = of_int 7 / 2 \<or> ratePerThousand a = of_int 17 / 2
          \<or> ratePerThousand a = of_int 37 / 2 \<or> ratePerThousand a = of_int 75 / 2"
      using ratePerThousand_cases [of a] by simp
    then show ?thesis using that by fastforce
  qed
  have "k * n \<le> k * 75" using n(3) assms(1) by simp
  also have "\<dots> < 2 ^ 46 * 75" using assms(2) by simp
  also have "\<dots> < (2::int) ^ 53" by simp
  finally have kn: "\<bar>k * n\<bar> < 2 ^ 53" using assms(1) n(2) by simp
  have "toDouble (of_int (k * n) / 2) = Fin (of_int (k * n) / 2)"
    using kn by (rule toDouble_half)
  then have "jsTimes (Fin (of_int k)) (of_int n / 2) = Fin (of_int k * (of_int n / 2))"
    by simp
  then show ?thesis
    unfolding d n(1) .
qed

lemma mathRound_round: "mathRound (Fin x) = Fin (of_int (round x))"
  by (simp add: round_def)


lemma rates_increase:
  "x1 < 35 \<and> 35 \<le> x2 \<and> x2 < 45 \<and> 45 \<le> x3 \<and> x3 < 55 \<and> 55 \<le> x4 \<longrightarrow>
     ratePerThousand (Fin x1) < ratePerThousand (Fin x2)
     \<and> ratePerThousand (Fin x2) < ratePerThousand (Fin x3)
     \<and> ratePerThousand (Fin x3) < ratePerThousand (Fin x4)"
  by (simp add: ratePerThousand_Fin)

text \<open>
  Claim C6, as the code has it. For life insurance with an age \<open>a\<close> and a coverage amount
  \<open>c\<close> (under \<^verbatim>\<open>coverage\<close>, or under \<^verbatim>\<open>coverageAmount\<close> when \<^verbatim>\<open>coverage\<close> is not given; 0 and
  \<^verbatim>\<open>NaN\<close> count as not given in JavaScript), the annual premium is
  \<^verbatim>\<open>Math.round((c / 1000) * rate)\<close> with the quotient and the product each rounded to a
  double, where the rate per thousand is 3.5 below age 35, 8.5 below 45, 18.5 below 55
  and 37.5 from 55 on: the rates increase strictly from bracket to bracket. When the
  coverage is a whole number of thousands (below \<open>2^46\<close> thousands) both operations are
  exact, and the premium is \<open>round ((c / 1000) * rate)\<close>.
\<close>

theorem life_premium_formula:
  assumes "p ''age'' = Some (PNum a)" and "truthyNum a"
    and "p ''coverage'' = Some (PNum c)
         \<or> (\<not> truthy (p ''coverage'') \<and> p ''coverageAmount'' = Some (PNum c))"
    and "truthyNum c"
  shows "calculatePremium svc ''life'' p =
           Success (mathRound (jsTimes (jsDividedBy c 1000) (ratePerThousand a)))
             [''baseCoverage'' \<mapsto> c,
              ''ageRate'' \<mapsto> Fin (ratePerThousand a),
              ''annualPremium'' \<mapsto> mathRound (jsTimes (jsDividedBy c 1000) (ratePerThousand a)),
              ''monthlyPremium'' \<mapsto>
                mathRound (jsDividedBy (jsTimes (jsDividedBy c 1000) (ratePerThousand a)) 12)]
         \<and> (\<forall>x. a = Fin x \<longrightarrow>
               ratePerThousand a =
                 (if x < 35 then 7/2 else if x < 45 then 17/2 else if x < 55 then 37/2
                  else 75/2))
         \<and> (\<forall>k. c = Fin (of_int k * 1000) \<and> 0 < k \<and> k < 2 ^ 46 \<longrightarrow>
               (\<exists>bd. calculatePremium svc ''life'' p =
                  Success (Fin (of_int (round (of_int k * 1000 / 1000 * ratePerThousand a)))) bd))
         \<and> (\<forall>x1 x2 x3 x4. x1 < 35 \<and> 35 \<le> x2 \<and> x2 < 45 \<and> 45 \<le> x3 \<and> x3 < 55 \<and> 55 \<le> x4 \<longrightarrow>
               ratePerThousand (Fin x1) < ratePerThousand (Fin x2)
               \<and> ratePerThousand (Fin x2) < ratePerThousand (Fin x3)
               \<and> ratePerThousand (Fin x3) < ratePerThousand (Fin x4))"
proof -
  have cv: "jsOr (jsOr (p ''coverage'') (p ''coverageAmount'')) (Some (PNum (Fin 500000))) =
            Some (PNum c)"
    using assms(3,4) by (auto simp add: jsOr_def)
  have ag: "jsOr (p ''age'') (Some (PNum (Fin 30))) = Some (PNum a)"
    using assms(1,2) by (simp add: jsOr_def)
  note calc = calc_life_numbers [OF ag cv, of svc]
  have r: "\<forall>x. a = Fin x \<longrightarrow>
               ratePerThousand a =
                 (if x < 35 then 7/2 else if x < 45 then 17/2 else if x < 55 then 37/2
                  else 75/2)"
    by (simp add: ratePerThousand_Fin)
  have w: "\<exists>bd. calculatePremium svc ''life'' p =
                  Success (Fin (of_int (round (of_int k * 1000 / 1000 * ratePerThousand a)))) bd"
    if "c = Fin (of_int k * 1000) \<and> 0 < k \<and> k < 2 ^ 46" for k
  proof -
    have "jsTimes (jsDividedBy c 1000) (ratePerThousand a) = Fin (of_int k * ratePerThousand a)"
      using that whole_thousands [of k a] by simp
    then have "mathRound (jsTimes (jsDividedBy c 1000) (ratePerThousand a)) =
        Fin (of_int (round (of_int k * 1000 / 1000 * ratePerThousand a)))"
      by (simp add: round_def)
    then show ?thesis
      using calc by simp
  qed
  have incr: "\<forall>x1 x2 x3 x4. x1 < 35 \<and> 35 \<le> x2 \<and> x2 < 45 \<and> 45 \<le> x3 \<and> x3 < 55 \<and> 55 \<le> x4 \<longrightarrow>
               ratePerThousand (Fin x1) < ratePerThousand (Fin x2)
               \<and> ratePerThousand (Fin x2) < ratePerThousand (Fin x3)
               \<and> ratePerThousand (Fin x3) < ratePerThousand (Fin x4)"
    using rates_increase by blast
  show ?thesis
    using calc r w incr by blast
qed

lemma monthly_354: "mathRound (jsDividedBy (Fin 4250) 12) = Fin 354"
  by code_simp

lemma product_4250: "jsTimes (jsDividedBy (Fin 500000) 1000) (17/2) = Fin 4250"
  by code_simp

theorem life_premium_formula_witness:
  "calculatePremium sampleService ''life''
     [''age'' \<mapsto> PNum (Fin 41), ''coverage'' \<mapsto> PNum (Fin 500000)] =
     Success (Fin 4250)
       [''baseCoverage'' \<mapsto> Fin 500000, ''ageRate'' \<mapsto> Fin (17/2), ''annualPremium'' \<mapsto> Fin 4250,
        ''monthlyPremium'' \<mapsto> Fin 354]
   \<and> (\<exists>bd. calculatePremium sampleService ''life''
          [''age'' \<mapsto> PNum (Fin 41), ''coverage'' \<mapsto> PNum (Fin 500000)] =
        Success (Fin (of_int (round (of_int 500 * 1000 / 1000 * ratePerThousand (Fin 41))))) bd)
   \<and> ratePerThousand (Fin 34) < ratePerThousand (Fin 35)
   \<and> ratePerThousand (Fin 44) < ratePerThousand (Fin 45)
   \<and> ratePerThousand (Fin 54) < ratePerThousand (Fin 55)"
proof -
  let ?p = "[''age'' \<mapsto> PNum (Fin 41), ''coverage'' \<mapsto> PNum (Fin 500000)]"
  have h1: "?p ''age'' = Some (PNum (Fin 41))" by simp
  have h2: "truthyNum (Fin 41)" by simp
  have h3: "?p ''coverage'' = Some (PNum (Fin 500000))
         \<or> (\<not> truthy (?p ''coverage'') \<and> ?p ''coverageAmount'' = Some (PNum (Fin 500000)))"
    by simp
  have h4: "truthyNum (Fin 500000)" by simp
  have r: "ratePerThousand (Fin 41) = 17/2" by (simp add: ratePerThousand_Fin)
  have m: "mathRound (Fin 4250) = Fin 4250" by code_simp
  have quote: "calculatePremium sampleService ''life'' ?p =
     Success (Fin 4250)
       [''baseCoverage'' \<mapsto> Fin 500000, ''ageRate'' \<mapsto> Fin (17/2), ''annualPremium'' \<mapsto> Fin 4250,
        ''monthlyPremium'' \<mapsto> Fin 354]"
    using conjunct1 [OF life_premium_formula [OF h1 h2 h3 h4, of sampleService]]
    unfolding r product_4250 m monthly_354 .
  have k: "Fin 500000 = Fin (of_int 500 * 1000) \<and> (0::int) < 500 \<and> (500::int) < 2 ^ 46"
    by simp
  have whole: "\<exists>bd. calculatePremium sampleService ''life'' ?p =
        Success (Fin (of_int (round (of_int 500 * 1000 / 1000 * ratePerThousand (Fin 41))))) bd"
    using conjunct1 [OF conjunct2 [OF conjunct2
        [OF life_premium_formula [OF h1 h2 h3 h4, of sampleService]]], THEN spec, of 500] k
    by (rule mp)
  have rates: "ratePerThousand (Fin 34) < ratePerThousand (Fin 35)
      \<and> ratePerThousand (Fin 44) < ratePerThousand (Fin 45)
      \<and> ratePerThousand (Fin 54) < ratePerThousand (Fin 55)"
    by (simp add: ratePerThousand_Fin)
  show ?thesis
    using quote whole rates by blast
qed

lemma product_101320:
  "jsTimes (jsDividedBy (Fin 101320) 1000) (75/2) = Fin (8355188859469823 / 2199023255552)"
  by code_simp

lemma round_101320: "mathRound (Fin (8355188859469823 / 2199023255552)) = Fin 3799"
  by code_simp

lemma monthly_101320:
  "mathRound (jsDividedBy (Fin (8355188859469823 / 2199023255552)) 12) = Fin 317"
  by code_simp

text \<open>
  The claim as written has the exact product rounded. At age 60 and a coverage of
  101320 the exact product is 3799.5, which rounds to 3800; the double quotient
  \<^verbatim>\<open>101320 / 1000\<close> is a little below 101.32, the double product is 3799.4999999999995,
  and the premium is 3799.
\<close>

theorem life_premium_rounding_counterexample:
  "calculatePremium sampleService ''life''
     [''age'' \<mapsto> PNum (Fin 60), ''coverage'' \<mapsto> PNum (Fin 101320)] =
     Success (Fin 3799)
       [''baseCoverage'' \<mapsto> Fin 101320, ''ageRate'' \<mapsto> Fin (75/2), ''annualPremium'' \<mapsto> Fin 3799,
        ''monthlyPremium'' \<mapsto> Fin 317]
   \<and> (101320 / 1000) * (75/2) = (7599/2 :: rat)
   \<and> round (7599/2 :: rat) = 3800"
proof -
  let ?p = "[''age'' \<mapsto> PNum (Fin 60), ''coverage'' \<mapsto> PNum (Fin 101320)]"
  have ag: "jsOr (?p ''age'') (Some (PNum (Fin 30))) = Some (PNum (Fin 60))"
    by (simp add: jsOr_def)
  have cv: "jsOr (jsOr (?p ''coverage'') (?p ''coverageAmount'')) (Some (PNum (Fin 500000))) =
            Some (PNum (Fin 101320))"
    by (simp add: jsOr_def)
  have r: "ratePerThousand (Fin 60) = 75/2" by (simp add: ratePerThousand_Fin)
  have quote: "calculatePremium sampleService ''life'' ?p =
     Success (Fin 3799)
       [''baseCoverage'' \<mapsto> Fin 101320, ''ageRate'' \<mapsto> Fin (75/2), ''annualPremium'' \<mapsto> Fin 3799,
        ''monthlyPremium'' \<mapsto> Fin 317]"
    using calc_life_numbers [OF ag cv, of sampleService]
    unfolding r product_101320 round_101320 monthly_101320 .
  have e: "round (7599/2 :: rat) = 3800" by (rule round_unique) simp_all
  show ?thesis
    using quote e by simp
qed


text \<open>
  Claim C10, as the code has it. For the type \<^verbatim>\<open>'auto'\<close> the calculator returns a quote
  exactly when \<^verbatim>\<open>vehicleValue\<close>, \<^verbatim>\<open>age\<close> and \<^verbatim>\<open>location\<close> are all truthy and the premium service
  returns; the quote is then the service's premium and breakdown for the argument
  \<open>autoInput p\<close>. It returns the failure "Missing required parameters for calculation"
  exactly when one of the three is missing. \<open>hasRequiredAutoParams\<close> reads \<^verbatim>\<open>age\<close> only;
  the service is given the vehicle value and the location that were checked, and as
  \<^verbatim>\<open>driverAge\<close> the parameter \<^verbatim>\<open>driverAge\<close> when it is truthy, else \<^verbatim>\<open>driver_age\<close> when that is
  truthy, else \<^verbatim>\<open>age\<close>. The coverage type is not checked: a missing one becomes
  \<^verbatim>\<open>'comprehensive'\<close>, a missing driving history \<^verbatim>\<open>'clean'\<close>.
\<close>

theorem auto_quote_condition:
  "((\<exists>amount bd. calculatePremium svc ''auto'' p = Success amount bd) =
      (truthy (p ''vehicleValue'') \<and> truthy (p ''age'') \<and> truthy (p ''location'')
        \<and> calculateAutoPremium svc (autoInput p) \<noteq> None))
   \<and> ((calculatePremium svc ''auto'' p = Failure ''Missing required parameters for calculation'') =
      (\<not> (truthy (p ''vehicleValue'') \<and> truthy (p ''age'') \<and> truthy (p ''location''))))
   \<and> (\<forall>r. truthy (p ''vehicleValue'') \<and> truthy (p ''age'') \<and> truthy (p ''location'')
          \<and> calculateAutoPremium svc (autoInput p) = Some r \<longrightarrow>
        calculatePremium svc ''auto'' p = Success (premium r) (breakdown r))
   \<and> (truthy (p ''vehicleValue'') \<longrightarrow> vehicleValue (autoInput p) = p ''vehicleValue'')
   \<and> location (autoInput p) = p ''location''
   \<and> (truthy (p ''driverAge'') \<longrightarrow> driverAge (autoInput p) = p ''driverAge'')
   \<and> (\<not> truthy (p ''driverAge'') \<and> truthy (p ''driver_age'') \<longrightarrow>
         driverAge (autoInput p) = p ''driver_age'')
   \<and> (\<not> truthy (p ''driverAge'') \<and> \<not> truthy (p ''driver_age'') \<longrightarrow>
         driverAge (autoInput p) = p ''age'')
   \<and> (truthy (p ''coverageType'') \<longrightarrow> coverageType (autoInput p) = p ''coverageType'')
   \<and> (\<not> truthy (p ''coverageType'') \<and> \<not> truthy (p ''coverage_type'') \<longrightarrow>
         coverageType (autoInput p) = Some (PStr ''comprehensive''))
   \<and> (\<not> truthy (p ''drivingHistory'') \<and> \<not> truthy (p ''driving_history'') \<longrightarrow>
         drivingHistory (autoInput p) = Some (PStr ''clean''))"
proof -
  have neq: "invalidParameters \<noteq> missingParameters"
    by (simp add: invalidParameters_def missingParameters_def)
  have a: "(\<exists>amount bd. calculatePremium svc ''auto'' p = Success amount bd) =
      (hasRequiredAutoParams p \<and> calculateAutoPremium svc (autoInput p) \<noteq> None)"
    by (cases "calculateAutoPremium svc (autoInput p)") (simp_all add: calc_auto)
  have b: "(calculatePremium svc ''auto'' p = Failure missingParameters) =
      (\<not> hasRequiredAutoParams p)"
    using neq by (cases "calculateAutoPremium svc (autoInput p)") (simp_all add: calc_auto)
  have q: "\<forall>r. hasRequiredAutoParams p \<and> calculateAutoPremium svc (autoInput p) = Some r \<longrightarrow>
        calculatePremium svc ''auto'' p = Success (premium r) (breakdown r)"
    by (simp add: calc_auto)
  have v: "truthy (p ''vehicleValue'') \<longrightarrow> vehicleValue (autoInput p) = p ''vehicleValue''"
    by (simp add: autoInput_def jsOr_def)
  have l: "location (autoInput p) = p ''location''"
    by (simp add: autoInput_def)
  have d1: "truthy (p ''driverAge'') \<longrightarrow> driverAge (autoInput p) = p ''driverAge''"
    by (simp add: autoInput_def jsOr_def)
  have d2: "\<not> truthy (p ''driverAge'') \<and> truthy (p ''driver_age'') \<longrightarrow>
         driverAge (autoInput p) = p ''driver_age''"
    by (simp add: autoInput_def jsOr_def)
  have d3: "\<not> truthy (p ''driverAge'') \<and> \<not> truthy (p ''driver_age'') \<longrightarrow>
         driverAge (autoInput p) = p ''age''"
    by (simp add: autoInput_def jsOr_def)
  have c0: "truthy (p ''coverageType'') \<longrightarrow> coverageType (autoInput p) = p ''coverageType''"
    by (simp add: autoInput_def jsOr_def)
  have c: "\<not> truthy (p ''coverageType'') \<and> \<not> truthy (p ''coverage_type'') \<longrightarrow>
         coverageType (autoInput p) = Some (PStr ''comprehensive'')"
    by (simp add: autoInput_def jsOr_def)
  have d: "\<not> truthy (p ''drivingHistory'') \<and> \<not> truthy (p ''driving_history'') \<longrightarrow>
         drivingHistory (autoInput p) = Some (PStr ''clean'')"
    by (simp add: autoInput_def jsOr_def)
  show ?thesis
    using a b q v l d1 d2 d3 c0 c d unfolding hasRequiredAutoParams_def missingParameters_def
    by blast
qed

lemma sample_auto_truthy:
  "truthy (sampleAutoParams ''vehicleValue'')" "truthy (sampleAutoParams ''age'')"
  "truthy (sampleAutoParams ''location'')" "\<not> truthy (sampleAutoParams ''driverAge'')"
  "\<not> truthy (sampleAutoParams ''driver_age'')" "\<not> truthy (sampleAutoParams ''coverageType'')"
  "\<not> truthy (sampleAutoParams ''coverage_type'')" "\<not> truthy (sampleAutoParams ''drivingHistory'')"
  "\<not> truthy (sampleAutoParams ''driving_history'')"
  by (simp_all add: sampleAutoParams_def)

lemma sample_auto_service:
  "calculateAutoPremium sampleService i =
     Some \<lparr>premium = Fin 14688,
       breakdown = [''basePremium'' \<mapsto> Fin 12000, ''ageMultiplier'' \<mapsto> Fin (3/4),
                    ''locationMultiplier'' \<mapsto> Fin (3/2)]\<rparr>"
  by (simp add: sampleService_def)

theorem auto_quote_condition_witness:
  "calculatePremium sampleService ''auto'' sampleAutoParams =
     Success (Fin 14688)
       [''basePremium'' \<mapsto> Fin 12000, ''ageMultiplier'' \<mapsto> Fin (3/4),
        ''locationMultiplier'' \<mapsto> Fin (3/2)]
   \<and> vehicleValue (autoInput sampleAutoParams) = Some (PNum (Fin 400000))
   \<and> location (autoInput sampleAutoParams) = Some (PStr ''accra'')
   \<and> driverAge (autoInput sampleAutoParams) = Some (PNum (Fin 41))
   \<and> driverAge (autoInput (sampleAutoParams(''driverAge'' \<mapsto> PNum (Fin 35)))) =
       Some (PNum (Fin 35))
   \<and> coverageType (autoInput sampleAutoParams) = Some (PStr ''comprehensive'')
   \<and> drivingHistory (autoInput sampleAutoParams) = Some (PStr ''clean'')"
proof -
  note t = auto_quote_condition [of sampleService sampleAutoParams]
  note u = auto_quote_condition
    [of sampleService "sampleAutoParams(''driverAge'' \<mapsto> PNum (Fin 35))"]
  have q: "calculatePremium sampleService ''auto'' sampleAutoParams =
     Success (Fin 14688)
       [''basePremium'' \<mapsto> Fin 12000, ''ageMultiplier'' \<mapsto> Fin (3/4),
        ''locationMultiplier'' \<mapsto> Fin (3/2)]"
    using t sample_auto_truthy sample_auto_service [of "autoInput sampleAutoParams"] by simp
  have i: "vehicleValue (autoInput sampleAutoParams) = Some (PNum (Fin 400000))
     \<and> location (autoInput sampleAutoParams) = Some (PStr ''accra'')
     \<and> driverAge (autoInput sampleAutoParams) = Some (PNum (Fin 41))
     \<and> coverageType (autoInput sampleAutoParams) = Some (PStr ''comprehensive'')
     \<and> drivingHistory (autoInput sampleAutoParams) = Some (PStr ''clean'')"
    using t sample_auto_truthy by (simp add: sampleAutoParams_def)
  have j: "driverAge (autoInput (sampleAutoParams(''driverAge'' \<mapsto> PNum (Fin 35)))) =
       Some (PNum (Fin 35))"
    using u by simp
  show ?thesis
    using q i j by blast
qed

text \<open>
  The claim as written lets \<^verbatim>\<open>driverAge\<close> stand for the age that is required. With a vehicle value,
  a driver age and a location, but no \<^verbatim>\<open>age\<close>, the calculator fails.
\<close>

theorem auto_driverAge_counterexample:
  "truthy ([''vehicleValue'' \<mapsto> PNum (Fin 400000), ''driverAge'' \<mapsto> PNum (Fin 41),
            ''location'' \<mapsto> PStr ''accra''] ''vehicleValue'')
   \<and> truthy ([''vehicleValue'' \<mapsto> PNum (Fin 400000), ''driverAge'' \<mapsto> PNum (Fin 41),
            ''location'' \<mapsto> PStr ''accra''] ''driverAge'')
   \<and> truthy ([''vehicleValue'' \<mapsto> PNum (Fin 400000), ''driverAge'' \<mapsto> PNum (Fin 41),
            ''location'' \<mapsto> PStr ''accra''] ''location'')
   \<and> calculatePremium sampleService ''auto''
        [''vehicleValue'' \<mapsto> PNum (Fin 400000), ''driverAge'' \<mapsto> PNum (Fin 41),
         ''location'' \<mapsto> PStr ''accra'']
      = Failure ''Missing required parameters for calculation''"
  by (simp add: calc_auto hasRequiredAutoParams_def missingParameters_def)


section \<open>Premium responses: missing parameters and displayed figures\<close>

lemma detect_cases:
  "detectInsuranceType m = Some t \<Longrightarrow>
     t = ''auto'' \<or> t = ''health'' \<or> t = ''life'' \<or> t = ''business''"
  by (auto simp add: detectInsuranceType_def Let_def split: if_splits)

lemma req_auto:
  "getRequiredParametersForType ''auto'' = [''vehicleValue'', ''age'', ''location'', ''coverageType'']"
  by (simp add: getRequiredParametersForType_def lower_auto)

lemma req_health: "getRequiredParametersForType ''health'' = [''age'', ''planType'']"
  by (simp add: getRequiredParametersForType_def lower_health)

lemma req_life: "getRequiredParametersForType ''life'' = [''age'', ''coverage'']"
  by (simp add: getRequiredParametersForType_def lower_life)

lemma map_filter_all_Some:
  "(\<forall>k\<in>set xs. f k \<noteq> None) \<Longrightarrow> map Some (List.map_filter f xs) = map f xs"
  by (induction xs) (auto simp add: List.map_filter_simps)

lemma required_have_questions:
  assumes "toLowerCase t = ''auto'' \<or> toLowerCase t = ''health'' \<or> toLowerCase t = ''life''"
  shows "\<forall>k\<in>set (getRequiredParametersForType t). questionFor k \<noteq> None"
  using assms by (auto simp add: getRequiredParametersForType_def questionFor_def)

lemma response_missing:
  assumes "missing = filter (\<lambda>param. \<not> truthy (allParams param)) (getRequiredParametersForType t)"
    and "missing \<noteq> []"
  shows "premiumCalculationResponse svc t allParams =
     CollectParameters (generateParameterCollectionMessage t missing allParams) missing"
  using assms by (simp add: premiumCalculationResponse_def Let_def)

lemma handle_detected:
  "detectInsuranceType userMessage = Some t \<Longrightarrow>
   handlePremiumCalculation svc False userMessage history cp ap =
     premiumCalculationResponse svc t (spread cp ap)"
  by (simp add: handlePremiumCalculation_def Let_def)

lemma handle_type_parameter:
  "detectInsuranceType userMessage = None \<Longrightarrow>
   spread cp ap ''insuranceType'' = Some (PStr t) \<Longrightarrow> t \<noteq> [] \<Longrightarrow>
   handlePremiumCalculation svc False userMessage history cp ap =
     premiumCalculationResponse svc t (spread cp ap)"
  by (simp add: handlePremiumCalculation_def Let_def)

lemma toUpperChar_a: "toUpperChar CHR ''a'' = CHR ''A''"
  by code_simp


lemma default_product: "jsTimes (jsDividedBy (Fin 500000) 1000) (7/2) = Fin 1750"
  by code_simp

lemma default_round: "mathRound (Fin 1750) = Fin 1750"
  by code_simp

lemma default_monthly: "mathRound (jsDividedBy (Fin 1750) 12) = Fin 146"
  by code_simp

lemma rate_30: "ratePerThousand (Fin 30) = 7/2"
  by (simp add: ratePerThousand_Fin)

lemma life_both_defaults:
  assumes "\<not> truthy (p ''age'')" and "\<not> truthy (p ''coverage'')"
    and "\<not> truthy (p ''coverageAmount'')"
  shows "calculatePremium svc ''life'' p =
     Success (Fin 1750)
       [''baseCoverage'' \<mapsto> Fin 500000, ''ageRate'' \<mapsto> Fin (7/2), ''annualPremium'' \<mapsto> Fin 1750,
        ''monthlyPremium'' \<mapsto> Fin 146]"
proof -
  have ag: "jsOr (p ''age'') (Some (PNum (Fin 30))) = Some (PNum (Fin 30))"
    using assms(1) by (simp add: jsOr_def)
  have cv: "jsOr (jsOr (p ''coverage'') (p ''coverageAmount'')) (Some (PNum (Fin 500000))) =
            Some (PNum (Fin 500000))"
    using assms(2,3) by (simp add: jsOr_def)
  show ?thesis
    using calc_life_numbers [OF ag cv, of svc]
    unfolding rate_30 default_product default_round default_monthly .
qed

lemma life_default_age:
  assumes "\<not> truthy (p ''age'')" and "truthyNum c"
    and "p ''coverage'' = Some (PNum c)
         \<or> (\<not> truthy (p ''coverage'') \<and> p ''coverageAmount'' = Some (PNum c))"
  shows "calculatePremium svc ''life'' p =
     Success (mathRound (jsTimes (jsDividedBy c 1000) (7/2)))
       [''baseCoverage'' \<mapsto> c, ''ageRate'' \<mapsto> Fin (7/2),
        ''annualPremium'' \<mapsto> mathRound (jsTimes (jsDividedBy c 1000) (7/2)),
        ''monthlyPremium'' \<mapsto> mathRound (jsDividedBy (jsTimes (jsDividedBy c 1000) (7/2)) 12)]"
proof -
  have ag: "jsOr (p ''age'') (Some (PNum (Fin 30))) = Some (PNum (Fin 30))"
    using assms(1) by (simp add: jsOr_def)
  have cv: "jsOr (jsOr (p ''coverage'') (p ''coverageAmount'')) (Some (PNum (Fin 500000))) =
            Some (PNum c)"
    using assms(2,3) by (auto simp add: jsOr_def)
  show ?thesis
    using calc_life_numbers [OF ag cv, of svc] unfolding rate_30 .
qed

lemma life_default_coverage:
  assumes "p ''age'' = Some (PNum a)" and "truthyNum a"
    and "\<not> truthy (p ''coverage'')" and "\<not> truthy (p ''coverageAmount'')"
  shows "calculatePremium svc ''life'' p =
     Success (mathRound (jsTimes (jsDividedBy (Fin 500000) 1000) (ratePerThousand a)))
       [''baseCoverage'' \<mapsto> Fin 500000, ''ageRate'' \<mapsto> Fin (ratePerThousand a),
        ''annualPremium'' \<mapsto>
          mathRound (jsTimes (jsDividedBy (Fin 500000) 1000) (ratePerThousand a)),
        ''monthlyPremium'' \<mapsto>
          mathRound (jsDividedBy (jsTimes (jsDividedBy (Fin 500000) 1000) (ratePerThousand a))
            12)]"
proof -
  have ag: "jsOr (p ''age'') (Some (PNum (Fin 30))) = Some (PNum a)"
    using assms(1,2) by (simp add: jsOr_def)
  have cv: "jsOr (jsOr (p ''coverage'') (p ''coverageAmount'')) (Some (PNum (Fin 500000))) =
            Some (PNum (Fin 500000))"
    using assms(3,4) by (simp add: jsOr_def)
  show ?thesis
    using calc_life_numbers [OF ag cv, of svc] .
qed

text \<open>
  Claim C2, as the code has it. The calculator returns the failure "Missing required
  parameters for calculation" for \<^verbatim>\<open>'auto'\<close> when \<^verbatim>\<open>vehicleValue\<close>, \<^verbatim>\<open>age\<close> or \<^verbatim>\<open>location\<close> is
  missing, for \<^verbatim>\<open>'health'\<close> when \<^verbatim>\<open>age\<close> is missing, and for \<^verbatim>\<open>'business'\<close> always. For \<^verbatim>\<open>'life'\<close> it
  never returns a failure: a missing age is replaced by 30 and a missing coverage by
  500000, so that with both missing the quote is 1750 a year, with the age missing it is
  the quote of the given coverage at the rate 3.5, and with the coverage missing it is
  the quote of 500000 at the rate of the given age. In \<open>handlePremiumCalculation\<close>,
  outside the follow-up branch and with the insurance type \<open>t\<close> known (detected in the
  message, or else given as a parameter), a non-empty list of missing required parameters
  gives the parameter-collection response with exactly that list, and for auto, health
  and life its message has one question for each missing parameter, in the order of the
  list.
\<close>

theorem missing_parameters_responses:
  assumes "allParams = spread calculationParams additionalParams"
    and "missing =
           filter (\<lambda>param. \<not> truthy (allParams param)) (getRequiredParametersForType t)"
    and "detectInsuranceType userMessage = Some t
         \<or> (detectInsuranceType userMessage = None
              \<and> allParams ''insuranceType'' = Some (PStr t) \<and> t \<noteq> [])"
  shows "(\<not> (truthy (p ''vehicleValue'') \<and> truthy (p ''age'') \<and> truthy (p ''location'')) \<longrightarrow>
            calculatePremium svc ''auto'' p =
              Failure ''Missing required parameters for calculation'')
       \<and> (\<not> truthy (p ''age'') \<longrightarrow>
            calculatePremium svc ''health'' p =
              Failure ''Missing required parameters for calculation'')
       \<and> calculatePremium svc ''business'' p =
            Failure ''Missing required parameters for calculation''
       \<and> (\<forall>e. calculatePremium svc ''life'' p \<noteq> Failure e)
       \<and> (\<not> truthy (p ''age'') \<and> \<not> truthy (p ''coverage'') \<and> \<not> truthy (p ''coverageAmount'')
            \<longrightarrow>
            calculatePremium svc ''life'' p =
              Success (Fin 1750)
                [''baseCoverage'' \<mapsto> Fin 500000, ''ageRate'' \<mapsto> Fin (7/2),
                 ''annualPremium'' \<mapsto> Fin 1750, ''monthlyPremium'' \<mapsto> Fin 146])
       \<and> (\<forall>c. \<not> truthy (p ''age'') \<and> truthyNum c
              \<and> (p ''coverage'' = Some (PNum c)
                  \<or> (\<not> truthy (p ''coverage'') \<and> p ''coverageAmount'' = Some (PNum c))) \<longrightarrow>
            calculatePremium svc ''life'' p =
              Success (mathRound (jsTimes (jsDividedBy c 1000) (7/2)))
                [''baseCoverage'' \<mapsto> c, ''ageRate'' \<mapsto> Fin (7/2),
                 ''annualPremium'' \<mapsto> mathRound (jsTimes (jsDividedBy c 1000) (7/2)),
                 ''monthlyPremium'' \<mapsto>
                   mathRound (jsDividedBy (jsTimes (jsDividedBy c 1000) (7/2)) 12)])
       \<and> (\<forall>a. p ''age'' = Some (PNum a) \<and> truthyNum a
              \<and> \<not> truthy (p ''coverage'') \<and> \<not> truthy (p ''coverageAmount'') \<longrightarrow>
            calculatePremium svc ''life'' p =
              Success (mathRound (jsTimes (jsDividedBy (Fin 500000) 1000) (ratePerThousand a)))
                [''baseCoverage'' \<mapsto> Fin 500000, ''ageRate'' \<mapsto> Fin (ratePerThousand a),
                 ''annualPremium'' \<mapsto>
                   mathRound (jsTimes (jsDividedBy (Fin 500000) 1000) (ratePerThousand a)),
                 ''monthlyPremium'' \<mapsto>
                   mathRound
                     (jsDividedBy (jsTimes (jsDividedBy (Fin 500000) 1000) (ratePerThousand a))
                        12)])
       \<and> (missing \<noteq> [] \<longrightarrow>
            (\<exists>m. handlePremiumCalculation svc False userMessage history calculationParams
                    additionalParams = CollectParameters m missing
                 \<and> (toLowerCase t = ''auto'' \<or> toLowerCase t = ''health''
                       \<or> toLowerCase t = ''life'' \<longrightarrow>
                      map Some (questions m) = map questionFor missing)))"
proof -
  have a: "\<not> (truthy (p ''vehicleValue'') \<and> truthy (p ''age'') \<and> truthy (p ''location'')) \<longrightarrow>
            calculatePremium svc ''auto'' p = Failure missingParameters"
    by (simp add: calc_auto hasRequiredAutoParams_def)
  have h: "\<not> truthy (p ''age'') \<longrightarrow> calculatePremium svc ''health'' p = Failure missingParameters"
    by (simp add: calc_health hasRequiredHealthParams_def)
  have b: "calculatePremium svc ''business'' p = Failure missingParameters"
    by (rule calc_business)
  have l: "\<forall>e. calculatePremium svc ''life'' p \<noteq> Failure e"
    by (simp add: calc_life_not_failure)
  note l1 = life_both_defaults [of p svc]
  note l2 = life_default_age [of p _ svc]
  note l3 = life_default_coverage [of p _ svc]
  have route: "handlePremiumCalculation svc False userMessage history calculationParams
                 additionalParams =
               premiumCalculationResponse svc t allParams"
    using assms(3)
  proof
    assume "detectInsuranceType userMessage = Some t"
    then show ?thesis
      using handle_detected [of userMessage t svc history calculationParams additionalParams]
      by (simp add: assms(1))
  next
    assume "detectInsuranceType userMessage = None
              \<and> allParams ''insuranceType'' = Some (PStr t) \<and> t \<noteq> []"
    then show ?thesis
      using handle_type_parameter
        [of userMessage calculationParams additionalParams t svc history]
      by (simp add: assms(1))
  qed
  have c: "\<exists>m. handlePremiumCalculation svc False userMessage history calculationParams
                    additionalParams = CollectParameters m missing
                 \<and> (toLowerCase t = ''auto'' \<or> toLowerCase t = ''health''
                       \<or> toLowerCase t = ''life'' \<longrightarrow>
                      map Some (questions m) = map questionFor missing)"
    if ne: "missing \<noteq> []"
  proof -
    let ?m = "generateParameterCollectionMessage t missing allParams"
    have r: "handlePremiumCalculation svc False userMessage history calculationParams
               additionalParams =
             CollectParameters ?m missing"
      using route response_missing [OF assms(2) ne, of svc] by simp
    have q: "map Some (questions ?m) = map questionFor missing"
      if t: "toLowerCase t = ''auto'' \<or> toLowerCase t = ''health'' \<or> toLowerCase t = ''life''"
    proof -
      have "\<forall>k\<in>set missing. questionFor k \<noteq> None"
        using required_have_questions [OF t] by (simp add: assms(2))
      then show ?thesis
        by (simp add: generateParameterCollectionMessage_def map_filter_all_Some)
    qed
    show ?thesis using r q by blast
  qed
  show ?thesis
    using a h b l l1 l2 l3 c unfolding missingParameters_def by blast
qed


lemma age60_product: "jsTimes (jsDividedBy (Fin 500000) 1000) (75/2) = Fin 18750"
  by code_simp

lemma age60_round: "mathRound (Fin 18750) = Fin 18750"
  by code_simp

lemma age60_monthly: "mathRound (jsDividedBy (Fin 18750) 12) = Fin 1563"
  by code_simp

lemma cover200_product: "jsTimes (jsDividedBy (Fin 200000) 1000) (7/2) = Fin 700"
  by code_simp

lemma cover200_round: "mathRound (Fin 700) = Fin 700"
  by code_simp

lemma cover200_monthly: "mathRound (jsDividedBy (Fin 700) 12) = Fin 58"
  by code_simp

lemma detect_car: "detectInsuranceType ''how much for car insurance'' = Some ''auto''"
  by (simp add: detectInsuranceType_def toLowerCase_def toLowerChar_def Let_def)

theorem missing_parameters_responses_witness:
  "calculatePremium sampleService ''auto'' Map.empty =
     Failure ''Missing required parameters for calculation''
   \<and> calculatePremium sampleService ''health'' Map.empty =
     Failure ''Missing required parameters for calculation''
   \<and> calculatePremium sampleService ''life'' Map.empty =
     Success (Fin 1750)
       [''baseCoverage'' \<mapsto> Fin 500000, ''ageRate'' \<mapsto> Fin (7/2), ''annualPremium'' \<mapsto> Fin 1750,
        ''monthlyPremium'' \<mapsto> Fin 146]
   \<and> calculatePremium sampleService ''life'' [''coverage'' \<mapsto> PNum (Fin 200000)] =
     Success (Fin 700)
       [''baseCoverage'' \<mapsto> Fin 200000, ''ageRate'' \<mapsto> Fin (7/2), ''annualPremium'' \<mapsto> Fin 700,
        ''monthlyPremium'' \<mapsto> Fin 58]
   \<and> calculatePremium sampleService ''life'' [''age'' \<mapsto> PNum (Fin 60)] =
     Success (Fin 18750)
       [''baseCoverage'' \<mapsto> Fin 500000, ''ageRate'' \<mapsto> Fin (75/2),
        ''annualPremium'' \<mapsto> Fin 18750, ''monthlyPremium'' \<mapsto> Fin 1563]
   \<and> (\<exists>m. handlePremiumCalculation sampleService False ''how much for car insurance'' []
            onlyDefaults onlyDefaults
          = CollectParameters m [''vehicleValue'', ''age'']
        \<and> map Some (questions m) = [Some AskVehicleValue, Some AskAge])"
proof -
  have d: "detectInsuranceType ''how much for car insurance'' = Some ''auto''
         \<or> (detectInsuranceType ''how much for car insurance'' = None
              \<and> spread onlyDefaults onlyDefaults ''insuranceType'' = Some (PStr ''auto'')
              \<and> ''auto'' \<noteq> [])"
    using detect_car by simp
  have m: "[''vehicleValue'', ''age''] =
           filter (\<lambda>param. \<not> truthy (spread onlyDefaults onlyDefaults param))
             (getRequiredParametersForType ''auto'')"
    by (simp add: req_auto spread_def onlyDefaults_def)
  have q: "map questionFor [''vehicleValue'', ''age''] = [Some AskVehicleValue, Some AskAge]"
    by (simp add: questionFor_def)
  note t0 = missing_parameters_responses [OF refl m d, of Map.empty sampleService "[]"]
  note t1 = missing_parameters_responses
    [OF refl m d, of "[''coverage'' \<mapsto> PNum (Fin 200000)]" sampleService "[]"]
  note t2 = missing_parameters_responses
    [OF refl m d, of "[''age'' \<mapsto> PNum (Fin 60)]" sampleService "[]"]
  have a: "calculatePremium sampleService ''auto'' Map.empty =
     Failure ''Missing required parameters for calculation''"
    using conjunct1 [OF t0] by simp
  have h: "calculatePremium sampleService ''health'' Map.empty =
     Failure ''Missing required parameters for calculation''"
    using conjunct1 [OF conjunct2 [OF t0]] by simp
  have l0: "calculatePremium sampleService ''life'' Map.empty =
     Success (Fin 1750)
       [''baseCoverage'' \<mapsto> Fin 500000, ''ageRate'' \<mapsto> Fin (7/2), ''annualPremium'' \<mapsto> Fin 1750,
        ''monthlyPremium'' \<mapsto> Fin 146]"
    using conjunct1 [OF conjunct2 [OF conjunct2 [OF conjunct2 [OF conjunct2 [OF t0]]]]]
    by simp
  have c1: "\<not> truthy ([''coverage'' \<mapsto> PNum (Fin 200000)] ''age'') \<and> truthyNum (Fin 200000)
      \<and> ([''coverage'' \<mapsto> PNum (Fin 200000)] ''coverage'' = Some (PNum (Fin 200000))
          \<or> (\<not> truthy ([''coverage'' \<mapsto> PNum (Fin 200000)] ''coverage'')
              \<and> [''coverage'' \<mapsto> PNum (Fin 200000)] ''coverageAmount'' =
                  Some (PNum (Fin 200000))))"
    by simp
  have l1: "calculatePremium sampleService ''life'' [''coverage'' \<mapsto> PNum (Fin 200000)] =
     Success (Fin 700)
       [''baseCoverage'' \<mapsto> Fin 200000, ''ageRate'' \<mapsto> Fin (7/2), ''annualPremium'' \<mapsto> Fin 700,
        ''monthlyPremium'' \<mapsto> Fin 58]"
    using conjunct1 [OF conjunct2 [OF conjunct2 [OF conjunct2 [OF conjunct2 [OF conjunct2
        [OF t1]]]]], THEN spec, of "Fin 200000", THEN mp, OF c1]
    unfolding cover200_product cover200_round cover200_monthly .
  have c2: "[''age'' \<mapsto> PNum (Fin 60)] ''age'' = Some (PNum (Fin 60)) \<and> truthyNum (Fin 60)
      \<and> \<not> truthy ([''age'' \<mapsto> PNum (Fin 60)] ''coverage'')
      \<and> \<not> truthy ([''age'' \<mapsto> PNum (Fin 60)] ''coverageAmount'')"
    by simp
  have r60: "ratePerThousand (Fin 60) = 75/2" by (simp add: ratePerThousand_Fin)
  have l2: "calculatePremium sampleService ''life'' [''age'' \<mapsto> PNum (Fin 60)] =
     Success (Fin 18750)
       [''baseCoverage'' \<mapsto> Fin 500000, ''ageRate'' \<mapsto> Fin (75/2),
        ''annualPremium'' \<mapsto> Fin 18750, ''monthlyPremium'' \<mapsto> Fin 1563]"
    using conjunct1 [OF conjunct2 [OF conjunct2 [OF conjunct2 [OF conjunct2 [OF conjunct2
        [OF conjunct2 [OF t2]]]]]], THEN spec, of "Fin 60", THEN mp, OF c2]
    unfolding r60 age60_product age60_round age60_monthly .
  have ne: "[''vehicleValue'', ''age''] \<noteq> []" by simp
  have o: "\<exists>m. handlePremiumCalculation sampleService False ''how much for car insurance'' []
            onlyDefaults onlyDefaults
          = CollectParameters m [''vehicleValue'', ''age'']
        \<and> map Some (questions m) = [Some AskVehicleValue, Some AskAge]"
    using conjunct2 [OF conjunct2 [OF conjunct2 [OF conjunct2 [OF conjunct2 [OF conjunct2
        [OF conjunct2 [OF t0]]]]]], THEN mp, OF ne]
    unfolding q lower_auto by simp
  show ?thesis
    using a h l0 l1 l2 o by blast
qed

text \<open>
  The claim as written fails for life insurance: with no parameter at all, both required
  fields are missing and the calculator still returns a quote, computed from the default
  age 30 and the default coverage 500000.
\<close>

theorem life_defaults_counterexample:
  "filter (\<lambda>param. \<not> truthy (Map.empty param)) (getRequiredParametersForType ''life'') =
     [''age'', ''coverage'']
   \<and> calculatePremium sampleService ''life'' Map.empty =
     Success (Fin 1750)
       [''baseCoverage'' \<mapsto> Fin 500000, ''ageRate'' \<mapsto> Fin (7/2), ''annualPremium'' \<mapsto> Fin 1750,
        ''monthlyPremium'' \<mapsto> Fin 146]"
proof -
  have "calculatePremium sampleService ''life'' Map.empty =
     Success (Fin 1750)
       [''baseCoverage'' \<mapsto> Fin 500000, ''ageRate'' \<mapsto> Fin (7/2), ''annualPremium'' \<mapsto> Fin 1750,
        ''monthlyPremium'' \<mapsto> Fin 146]"
    by (rule life_both_defaults) simp_all
  then show ?thesis
    by (simp add: req_life)
qed


section \<open>Age extraction: two digits at most\<close>

lemma firstSome_Some: "firstSome f xs = Some y \<Longrightarrow> \<exists>x\<in>set xs. f x = Some y"
  by (induction xs) (auto split: option.splits)

lemma digitValue_le: "isDigit c \<Longrightarrow> digitValue c \<le> 9"
  by (auto simp add: isDigit_def digitValue_def Let_def)

lemma digitCaptures_bound: "d \<in> set (digitCaptures s) \<Longrightarrow> parseInt d < 100"
proof (induction s rule: digitCaptures.induct)
  case (1 c d' cs)
  then show ?case
    using digitValue_le [of c] digitValue_le [of d']
    by (auto simp add: parseInt_def split: if_splits)
next
  case (2 c)
  then show ?case
    using digitValue_le [of c] by (auto simp add: parseInt_def split: if_splits)
next
  case 3
  then show ?case by simp
qed

lemma digitsAfter_bound: "digitsAfter lit s = Some d \<Longrightarrow> parseInt d < 100"
proof -
  assume a: "digitsAfter lit s = Some d"
  then have "d \<in> set (digitCaptures (skipSpaces (drop (length lit) s)))"
    by (auto simp add: digitsAfter_def split: if_splits list.splits)
  then show ?thesis by (rule digitCaptures_bound)
qed

lemma agePattern1_bound: "agePattern1 wb s = Some d \<Longrightarrow> parseInt d < 100"
proof -
  assume "agePattern1 wb s = Some d"
  then obtain lit where "digitsAfter lit s = Some d"
    unfolding agePattern1_def using firstSome_Some by fastforce
  then show ?thesis by (rule digitsAfter_bound)
qed

lemma agePattern2_bound: "agePattern2 wb s = Some d \<Longrightarrow> parseInt d < 100"
proof -
  assume "agePattern2 wb s = Some d"
  then obtain x where "x \<in> set (digitCaptures s)"
    and "(let rest = skipSpaces (drop (length x) s) in
             if startsWithCI ''years old'' rest \<or> startsWithCI ''y'' rest
                \<or> startsWithCI ''age'' rest
             then Some x else None) = Some d"
    unfolding agePattern2_def using firstSome_Some by fastforce
  then have "d \<in> set (digitCaptures s)"
    by (simp add: Let_def split: if_splits)
  then show ?thesis by (rule digitCaptures_bound)
qed

lemma agePattern3_bound: "agePattern3 wb s = Some d \<Longrightarrow> parseInt d < 100"
  unfolding agePattern3_def by (auto split: if_splits dest: digitsAfter_bound)

lemma agePattern4_bound: "agePattern4 wb s = Some d \<Longrightarrow> parseInt d < 100"
proof -
  assume "agePattern4 wb s = Some d"
  then have "firstSome
          (\<lambda>d. let rest = skipSpaces (drop (length d) s) in
                firstSome
                  (\<lambda>afterComma.
                     let r1 = skipSpaces afterComma in
                     if startsWithCI ''i'' r1 \<and> startsWithCI ''will'' (skipSpaces (drop 1 r1))
                     then Some d else None)
                  ((case rest of c # cs \<Rightarrow> if c = CHR '','' then [cs] else [] | [] \<Rightarrow> [])
                   @ [rest]))
          (digitCaptures s) = Some d"
    unfolding agePattern4_def by (simp split: if_splits)
  then obtain x where x: "x \<in> set (digitCaptures s)"
    and f: "(let rest = skipSpaces (drop (length x) s) in
                firstSome
                  (\<lambda>afterComma.
                     let r1 = skipSpaces afterComma in
                     if startsWithCI ''i'' r1 \<and> startsWithCI ''will'' (skipSpaces (drop 1 r1))
                     then Some x else None)
                  ((case rest of c # cs \<Rightarrow> if c = CHR '','' then [cs] else [] | [] \<Rightarrow> [])
                   @ [rest])) = Some d"
    using firstSome_Some by fastforce
  from f obtain y where "(let r1 = skipSpaces y in
                     if startsWithCI ''i'' r1 \<and> startsWithCI ''will'' (skipSpaces (drop 1 r1))
                     then Some x else None) = Some d"
    unfolding Let_def using firstSome_Some by fastforce
  then have "d = x" by (simp add: Let_def split: if_splits)
  then show ?thesis using x digitCaptures_bound by blast
qed

lemma regexSearchFrom_Some:
  "regexSearchFrom pat wb s = Some d \<Longrightarrow> \<exists>wb' s'. pat wb' s' = Some d"
  by (induction pat wb s rule: regexSearchFrom.induct) (auto split: option.splits)


lemma extractAge_below_100:
  assumes "extractAge message = Some n"
  shows "16 \<le> n \<and> n \<le> 99"
proof -
  have "\<exists>pattern\<in>set [agePattern1, agePattern2, agePattern3, agePattern4].
          (case regexSearch pattern message of
            Some ageMatch \<Rightarrow>
              (let age = parseInt ageMatch in
               if age \<ge> 16 \<and> age \<le> 100 then Some age else None)
          | None \<Rightarrow> None) = Some n"
    using assms unfolding extractAge_def by (rule firstSome_Some)
  then obtain pattern where p: "pattern \<in> set [agePattern1, agePattern2, agePattern3, agePattern4]"
    and c: "(case regexSearch pattern message of
            Some ageMatch \<Rightarrow>
              (let age = parseInt ageMatch in
               if age \<ge> 16 \<and> age \<le> 100 then Some age else None)
          | None \<Rightarrow> None) = Some n"
    by blast
  from c obtain d where m: "regexSearch pattern message = Some d"
    and n: "n = parseInt d" and r: "16 \<le> n"
    by (cases "regexSearch pattern message") (simp_all add: Let_def split: if_splits)
  obtain wb' s' where w: "pattern wb' s' = Some d"
    using m regexSearchFrom_Some [of pattern True message d] unfolding regexSearch_def by blast
  consider "pattern = agePattern1" | "pattern = agePattern2" | "pattern = agePattern3"
    | "pattern = agePattern4"
    using p by (simp only: set_simps insert_iff empty_iff) blast
  then have "parseInt d < 100"
  proof cases
    case 1
    then show ?thesis using w agePattern1_bound by blast
  next
    case 2
    then show ?thesis using w agePattern2_bound by blast
  next
    case 3
    then show ?thesis using w agePattern3_bound by blast
  next
    case 4
    then show ?thesis using w agePattern4_bound by blast
  qed
  then show ?thesis using n r by simp
qed


text \<open>
  An age of two digits after the word "age" is returned as it is, when it is at least 16.
\<close>

lemma digit_not_space: "isDigit c \<Longrightarrow> \<not> isSpace c"
  by (auto simp add: isDigit_def isSpace_def Let_def)

lemma isSpace_space: "isSpace CHR '' ''"
  by (simp add: isSpace_def)

lemma lower_lits:
  "asciiLower CHR ''a'' = CHR ''a''" "asciiLower CHR ''g'' = CHR ''g''"
  "asciiLower CHR ''e'' = CHR ''e''"
  by (simp_all add: asciiLower_def)

lemma extractAge_age_two_digits:
  assumes "isDigit c1" and "isDigit c2" and "16 \<le> parseInt [c1, c2]"
  shows "extractAge (''age '' @ [c1, c2]) = Some (parseInt [c1, c2])"
proof -
  have cap: "digitsAfter ''age'' (''age '' @ [c1, c2]) = Some [c1, c2]"
    using assms(1,2)
    by (simp add: digitsAfter_def lower_lits skipSpaces_def isSpace_space digit_not_space)
  have p: "agePattern1 True (''age '' @ [c1, c2]) = Some [c1, c2]"
    using cap by (simp add: agePattern1_def)
  have s: "regexSearch agePattern1 (''age '' @ [c1, c2]) = Some [c1, c2]"
    using p by (simp add: regexSearch_def)
  have b: "parseInt [c1, c2] < 100"
    using digitCaptures_bound [of "[c1, c2]" "[c1, c2]"] assms(1,2) by simp
  show ?thesis
    using assms(3) b s by (simp add: extractAge_def Let_def)
qed

lemma age_i_am_100: "extractAge ''I am 100'' = None" by code_simp
lemma age_age_100: "extractAge ''age 100'' = None" by code_simp
lemma age_100_years: "extractAge ''100 years old'' = None" by code_simp
lemma age_age_160: "extractAge ''age 160'' = Some 16" by code_simp
lemma age_i_am_250: "extractAge ''I am 250 years old'' = Some 25" by code_simp
lemma age_age_41: "extractAge ''age 41'' = Some 41" by code_simp
lemma age_41_years: "extractAge ''41 years old'' = Some 41" by code_simp
lemma age_i_am_41: "extractAge ''I am 41'' = Some 41" by code_simp
lemma age_41_will: "extractAge ''41, I will prefer comprehensive'' = Some 41" by code_simp
lemma age_age_15: "extractAge ''age 15'' = None" by code_simp
lemma age_history_100:
  "extractAgeFromHistory [\<lparr>role = User, content = ''I am 100 years old'', timestamp = 0\<rparr>] = None"
  by code_simp

text \<open>
  Claim C4 at the inputs where the code leaves it. The range test admits 100, but every
  pattern captures two digits at most: an age of 100 is never returned, and of a number of
  three digits the first two are taken for the age when they are in range. Ages of two
  digits in the documented phrasings are returned as they are, and those below 16 are
  dropped.
\<close>

theorem extractAge_three_digits:
  "extractAge ''I am 100'' = None
   \<and> extractAge ''age 100'' = None
   \<and> extractAge ''100 years old'' = None
   \<and> extractAge ''age 160'' = Some 16
   \<and> extractAge ''I am 250 years old'' = Some 25
   \<and> extractAge ''age 41'' = Some 41
   \<and> extractAge ''41 years old'' = Some 41
   \<and> extractAge ''I am 41'' = Some 41
   \<and> extractAge ''41, I will prefer comprehensive'' = Some 41
   \<and> extractAge ''age 15'' = None
   \<and> extractAgeFromHistory
        [\<lparr>role = User, content = ''I am 100 years old'', timestamp = 0\<rparr>] = None"
  by (simp only: age_i_am_100 age_age_100 age_100_years age_age_160 age_i_am_250 age_age_41
      age_41_years age_i_am_41 age_41_will age_age_15 age_history_100 simp_thms)

section \<open>Processing a message: what the history records\<close>

lemma getHistory_empty: "getConversationHistory Map.empty u = []"
  by (simp add: getConversationHistory_def)

lemma lastN_short: "length xs \<le> n \<Longrightarrow> lastN n xs = xs"
  by (simp add: lastN_def)

text \<open>
  On the premium path one inbound message adds the user turn and the reply, once each. On
  the legacy path it adds the user turn twice and the reply twice.
\<close>

lemma history_after_premium:
  "getConversationHistory (fst (processMessage st userId userMessage (PremiumRequest m) now)) userId =
     lastN 20 (getConversationHistory st userId @
       [\<lparr>role = User, content = userMessage, timestamp = now\<rparr>,
        \<lparr>role = Assistant, content = m, timestamp = now\<rparr>])"
  using lastN_append_lastN [of 20
      "getConversationHistory st userId @ [\<lparr>role = User, content = userMessage, timestamp = now\<rparr>]"
      "[\<lparr>role = Assistant, content = m, timestamp = now\<rparr>]"]
  by (simp add: processMessage_def Let_def getHistory_update getHistory_updateResponse)

lemma history_after_legacy:
  assumes "m \<noteq> []"
  shows "getConversationHistory
       (fst (processMessage st userId userMessage (Conversation None (LegacyAnswers m)) now)) userId =
     lastN 20 (getConversationHistory st userId @
       [\<lparr>role = User, content = userMessage, timestamp = now\<rparr>,
        \<lparr>role = User, content = userMessage, timestamp = now\<rparr>,
        \<lparr>role = Assistant, content = m, timestamp = now\<rparr>,
        \<lparr>role = Assistant, content = m, timestamp = now\<rparr>])"
proof -
  let ?U = "\<lparr>role = User, content = userMessage, timestamp = now\<rparr>"
  let ?A = "\<lparr>role = Assistant, content = m, timestamp = now\<rparr>"
  let ?h = "getConversationHistory st userId"
  have 1: "lastN 20 (lastN 20 (?h @ [?U]) @ [?U, ?A]) = lastN 20 (?h @ [?U, ?U, ?A])"
    using lastN_append_lastN [of 20 "?h @ [?U]" "[?U, ?A]"] by simp
  have 2: "lastN 20 (lastN 20 (?h @ [?U, ?U, ?A]) @ [?A]) = lastN 20 (?h @ [?U, ?U, ?A, ?A])"
    using lastN_append_lastN [of 20 "?h @ [?U, ?U, ?A]" "[?A]"] by simp
  show ?thesis
    using assms
    by (simp add: processMessage_def processWithLegacyRAG_def Let_def getHistory_update
        getHistory_updateResponse 1 2)
qed

lemma first_message_legacy:
  "getConversationHistory
     (fst (processMessage Map.empty ''u1'' ''hello'' (Conversation None (LegacyAnswers ''Hi there'')) 7))
     ''u1'' =
     [\<lparr>role = User, content = ''hello'', timestamp = 7\<rparr>,
      \<lparr>role = User, content = ''hello'', timestamp = 7\<rparr>,
      \<lparr>role = Assistant, content = ''Hi there'', timestamp = 7\<rparr>,
      \<lparr>role = Assistant, content = ''Hi there'', timestamp = 7\<rparr>]"
  by (simp add: history_after_legacy getHistory_empty lastN_short)

lemma first_message_enhanced:
  "getConversationHistory
     (fst (processMessage Map.empty ''u1'' ''hello''
        (Conversation (Some (EnhancedAnswers ''Hi there'')) LegacyFails) 7))
     ''u1'' =
     [\<lparr>role = User, content = ''hello'', timestamp = 7\<rparr>,
      \<lparr>role = User, content = ''hello'', timestamp = 7\<rparr>,
      \<lparr>role = Assistant, content = ''Hi there'', timestamp = 7\<rparr>,
      \<lparr>role = Assistant, content = ''Hi there'', timestamp = 7\<rparr>]"
  by (simp add: processMessage_def processWithEnhancedRAG_def Let_def
      getHistory_update getHistory_updateResponse getHistory_empty lastN_short)

lemma first_message_legacy_late_failure:
  "getConversationHistory
     (fst (processMessage Map.empty ''u1'' ''hello''
        (Conversation None (LegacyFailsLate ''Hi there'')) 7))
     ''u1'' =
     [\<lparr>role = User, content = ''hello'', timestamp = 7\<rparr>,
      \<lparr>role = User, content = ''hello'', timestamp = 7\<rparr>,
      \<lparr>role = Assistant, content = ''Hi there'', timestamp = 7\<rparr>,
      \<lparr>role = Assistant, content = fallbackResponse, timestamp = 7\<rparr>]"
  by (simp add: processMessage_def processWithLegacyRAG_def Let_def
      getHistory_update getHistory_updateResponse getHistory_empty lastN_short)

lemma first_message_premium:
  "getConversationHistory
     (fst (processMessage Map.empty ''u1'' ''quote for my car'' (PremiumRequest ''What is your age?'') 7))
     ''u1'' =
     [\<lparr>role = User, content = ''quote for my car'', timestamp = 7\<rparr>,
      \<lparr>role = Assistant, content = ''What is your age?'', timestamp = 7\<rparr>]"
  by (simp add: history_after_premium getHistory_empty lastN_short)

lemma first_message_legacy_failure:
  "getConversationHistory
     (fst (processMessage Map.empty ''u1'' ''hello'' (Conversation None LegacyFails) 7))
     ''u1'' =
     [\<lparr>role = User, content = ''hello'', timestamp = 7\<rparr>,
      \<lparr>role = Assistant, content = fallbackResponse, timestamp = 7\<rparr>]"
  by (simp add: processMessage_def processWithLegacyRAG_def Let_def
      getHistory_update getHistory_updateResponse getHistory_empty lastN_short)


text \<open>
  Claim C5 at the inputs where the code leaves it. On the premium path a message adds the
  user turn once and the assistant turn once, and so does the error path when the legacy
  method throws before its own update. On the legacy path, the first message of a user
  leaves four entries: the user turn twice, then the reply twice; so does the enhanced
  path. When the legacy method throws after its own update, the history holds the user turn
  twice, the reply, and the apology.
\<close>

theorem processMessage_records_twice:
  "getConversationHistory
     (fst (processMessage Map.empty ''u1'' ''hello'' (Conversation None (LegacyAnswers ''Hi there'')) 7))
     ''u1'' =
     [\<lparr>role = User, content = ''hello'', timestamp = 7\<rparr>,
      \<lparr>role = User, content = ''hello'', timestamp = 7\<rparr>,
      \<lparr>role = Assistant, content = ''Hi there'', timestamp = 7\<rparr>,
      \<lparr>role = Assistant, content = ''Hi there'', timestamp = 7\<rparr>]
   \<and> getConversationHistory
     (fst (processMessage Map.empty ''u1'' ''hello''
        (Conversation (Some (EnhancedAnswers ''Hi there'')) LegacyFails) 7))
     ''u1'' =
     [\<lparr>role = User, content = ''hello'', timestamp = 7\<rparr>,
      \<lparr>role = User, content = ''hello'', timestamp = 7\<rparr>,
      \<lparr>role = Assistant, content = ''Hi there'', timestamp = 7\<rparr>,
      \<lparr>role = Assistant, content = ''Hi there'', timestamp = 7\<rparr>]
   \<and> getConversationHistory
     (fst (processMessage Map.empty ''u1'' ''hello''
        (Conversation None (LegacyFailsLate ''Hi there'')) 7))
     ''u1'' =
     [\<lparr>role = User, content = ''hello'', timestamp = 7\<rparr>,
      \<lparr>role = User, content = ''hello'', timestamp = 7\<rparr>,
      \<lparr>role = Assistant, content = ''Hi there'', timestamp = 7\<rparr>,
      \<lparr>role = Assistant, content = fallbackResponse, timestamp = 7\<rparr>]
   \<and> getConversationHistory
     (fst (processMessage Map.empty ''u1'' ''quote for my car'' (PremiumRequest ''What is your age?'') 7))
     ''u1'' =
     [\<lparr>role = User, content = ''quote for my car'', timestamp = 7\<rparr>,
      \<lparr>role = Assistant, content = ''What is your age?'', timestamp = 7\<rparr>]
   \<and> getConversationHistory
     (fst (processMessage Map.empty ''u1'' ''hello'' (Conversation None LegacyFails) 7))
     ''u1'' =
     [\<lparr>role = User, content = ''hello'', timestamp = 7\<rparr>,
      \<lparr>role = Assistant, content = fallbackResponse, timestamp = 7\<rparr>]"
  by (simp only: first_message_legacy first_message_enhanced first_message_legacy_late_failure
      first_message_premium first_message_legacy_failure simp_thms)

end
